theory Spec2Isabelle
  imports Main
begin

section \<open>Azure classic virtual machines: the instance adapter\<close>

text \<open>
  A shallow embedding of \<^verbatim>\<open>classic_instance.go\<close> (package \<^verbatim>\<open>azure\<close>). The Go
  methods of \<^verbatim>\<open>SClassicInstance\<close> read and update the receiver, call the region's
  REST client and write to the log. Here the receiver, the sequence of remote calls
  issued so far and the log lines written so far form an explicit state that every
  operation takes and returns. The remote side is a family of oracles that answer a call
  from the history of the calls issued before it, so that a remote answer may change
  from one poll to the next.
\<close>

subsection \<open>Data model\<close>

text \<open>
  The JSON shapes of the source. Field names carry a prefix because record fields share
  one name space. A Go pointer field (\<^verbatim>\<open>*T\<close>) is an \<open>option\<close>. Fields that no
  operation of the file reads (input endpoints, instance IPs, the storage profile, the
  guest agent status, the deployment data of the hardware profile) are left out.
\<close>

record SubResource =
  sr_ID :: string
  sr_Name :: string
  sr_Type :: string

record ClassicVirtualMachineInstanceView =
  iv_Status :: string
  iv_PowerState :: string
  iv_PublicIpAddresses :: "string list"
  iv_PrivateIpAddress :: string

record ClassicHardwareProfile =
  hp_Size :: string

record ClassicVirtualNetwork =
  vn_StaticIpAddress :: string
  vn_SubnetNames :: "string list"
  vn_ID :: string
  vn_Name :: string
  vn_Type :: string

record ClassicNetworkProfile =
  np_ReservedIps :: "SubResource list option"
  np_VirtualNetwork :: ClassicVirtualNetwork
  np_NetworkSecurityGroup :: "SubResource option"

record ClassicVirtualMachineProperties =
  p_DomainName :: "SubResource option"
  p_InstanceView :: "ClassicVirtualMachineInstanceView option"
  p_NetworkProfile :: ClassicNetworkProfile
  p_HardwareProfile :: ClassicHardwareProfile

record SClassicInstance =
  Properties :: ClassicVirtualMachineProperties
  ID :: string
  Name :: string
  Type :: string
  Location :: string

text \<open>
  \<^verbatim>\<open>SClassicInstanceNic\<close>, \<^verbatim>\<open>SClassicEipAddress\<close>, \<^verbatim>\<open>SClassicSecurityGroup\<close> and
  \<^verbatim>\<open>SClassicDisk\<close> are declared in sibling files; the fields below are the ones this
  file reads or writes. The back references (\<^verbatim>\<open>instance\<close>, \<^verbatim>\<open>region\<close>) are not
  data and are not modelled.
\<close>

record SClassicInstanceNic =
  nic_IP :: string
  nic_ID :: string

record ClassicEipProperties =
  eip_IpAddress :: string
  eip_AttachedTo :: "SubResource option"

record SClassicEipAddress =
  eip_ID :: string
  eip_instanceId :: string
  eip_Name :: string
  eip_Properties :: ClassicEipProperties

record SClassicSecurityGroup =
  sg_ID :: string
  sg_Name :: string

typedecl SClassicDisk

record assignProperties =
  ap_NetworkSecurityGroup :: SubResource

record assignSecurityGroup =
  asg_ID :: string
  asg_Name :: string
  asg_Properties :: assignProperties
  asg_Type :: string

record VMSize =
  NumberOfCores :: int
  MemoryInMB :: int

record ServerStopOptions =
  IsForce :: bool

subsection \<open>Errors, panics and normalized statuses\<close>

text \<open>
  An error value is one of the two sentinel errors of \<^verbatim>\<open>cloudprovider\<close> that the
  file returns, a failure reported by the remote side, or an error wrapped by
  \<^verbatim>\<open>errors.Wrapf\<close> with a message.
\<close>

datatype error =
    ErrNotSupported
  | ErrNotImplemented
  | RemoteFailure string
  | Wrapf error string

text \<open>
  A Go method either returns or panics (here: a nil pointer dereference).
\<close>

datatype 'a outcome = Return 'a | Panic

text \<open>
  Modelled from the spec: the constants \<^verbatim>\<open>api.VM_READY\<close>, \<^verbatim>\<open>api.VM_RUNNING\<close> and
  \<^verbatim>\<open>api.VM_UNKNOWN\<close> are declared outside this file; the spec calls them the three
  normalized states Ready, Running and Unknown.
\<close>

datatype vm_status = VM_READY | VM_RUNNING | VM_UNKNOWN

subsection \<open>State and collaborators\<close>

datatype remote_call =
    Call_get string "(string \<times> string) list"
  | Call_list string "(string \<times> string) list"
  | Call_del string
  | Call_update assignSecurityGroup
  | Call_perform string string
  | Call_AttachDisk string string
  | Call_DetachDisk string string
  | Call_StartVM string
  | Call_DeleteVM string
  | Call_GetClassicEip string
  | Call_GetClassicSecurityGroupDetails string

record st =
  self :: SClassicInstance
  calls :: "remote_call list"
  logs :: "string list"

text \<open>
  The region (\<^verbatim>\<open>self.host.zone.region\<close>): its REST verbs and the methods that sibling
  files define on it. Each oracle receives the calls issued before this one. The verb
  \<^verbatim>\<open>get\<close> decodes into the value its caller passes, so it has one oracle per decoded
  type.
\<close>

record SRegion =
  r_get_instance :: "remote_call list \<Rightarrow> string \<Rightarrow> (string \<times> string) list \<Rightarrow> error + SClassicInstance"
  r_get_disks :: "remote_call list \<Rightarrow> string \<Rightarrow> (string \<times> string) list \<Rightarrow> error + SClassicDisk list"
  r_list_instances :: "remote_call list \<Rightarrow> string \<Rightarrow> (string \<times> string) list \<Rightarrow> error + SClassicInstance list"
  r_del :: "remote_call list \<Rightarrow> string \<Rightarrow> error option"
  r_update :: "remote_call list \<Rightarrow> assignSecurityGroup \<Rightarrow> error option"
  r_perform :: "remote_call list \<Rightarrow> string \<Rightarrow> string \<Rightarrow> error option"
  r_AttachDisk :: "remote_call list \<Rightarrow> string \<Rightarrow> string \<Rightarrow> error option"
  r_DetachDisk :: "remote_call list \<Rightarrow> string \<Rightarrow> string \<Rightarrow> error option"
  r_StartVM :: "remote_call list \<Rightarrow> string \<Rightarrow> error option"
  r_DeleteVM :: "remote_call list \<Rightarrow> string \<Rightarrow> error option"
  r_GetClassicEip :: "remote_call list \<Rightarrow> string \<Rightarrow> error + SClassicEipAddress"
  r_GetClassicSecurityGroupDetails :: "remote_call list \<Rightarrow> string \<Rightarrow> error + SClassicSecurityGroup"

text \<open>
  What the file uses and does not define: the region, \<^verbatim>\<open>jsonutils.Update\<close> (which
  copies the fetched record over the receiver and may fail), the table
  \<^verbatim>\<open>CLASSIC_VM_SIZES\<close> and \<^verbatim>\<open>cloudprovider.WaitStatus\<close> (which polls the receiver,
  so it takes and returns the state; its interval and timeout are Go durations, in
  nanoseconds).
\<close>

record env =
  region :: SRegion
  jsonutils_Update :: "SClassicInstance \<Rightarrow> SClassicInstance \<Rightarrow> error option \<times> SClassicInstance"
  CLASSIC_VM_SIZES :: "string \<rightharpoonup> VMSize"
  WaitStatus :: "st \<Rightarrow> vm_status \<Rightarrow> int \<Rightarrow> int \<Rightarrow> error option outcome \<times> st"

definition Second :: int where
  "Second = 1000000000"

definition remote :: "remote_call \<Rightarrow> (remote_call list \<Rightarrow> 'a) \<Rightarrow> st \<Rightarrow> 'a \<times> st" where
  "remote c answer s = (answer (calls s), s\<lparr>calls := calls s @ [c]\<rparr>)"

definition log_Errorf :: "string \<Rightarrow> st \<Rightarrow> st" where
  "log_Errorf msg s = s\<lparr>logs := logs s @ [msg]\<rparr>"

subsection \<open>Fetching\<close>

definition GetClassicInstance :: "env \<Rightarrow> string \<Rightarrow> st \<Rightarrow> (error + SClassicInstance) \<times> st" where
  "GetClassicInstance e instanceId s =
     (let params = [(''$expand'', ''instanceView'')]
      in remote (Call_get instanceId params)
           (\<lambda>h. r_get_instance (region e) h instanceId params) s)"

definition getNics :: "env \<Rightarrow> st \<Rightarrow> (error + SClassicInstanceNic list) \<times> st" where
  "getNics e s =
     (case GetClassicInstance e (ID (self s)) s of
        (Inl err, s1) \<Rightarrow> (Inl err, s1)
      | (Inr instance, s1) \<Rightarrow>
          (let networkProfile = p_NetworkProfile (Properties instance);
               ip = ''''; id' = '''';
               id' = (if length (vn_SubnetNames (np_VirtualNetwork networkProfile)) > 0
                     then vn_ID (np_VirtualNetwork networkProfile) @ ''/'' @
                          vn_SubnetNames (np_VirtualNetwork networkProfile) ! 0
                     else id');
               ip = (if length (vn_StaticIpAddress (np_VirtualNetwork networkProfile)) > 0
                     then vn_StaticIpAddress (np_VirtualNetwork networkProfile)
                     else ip);
               (id', ip) =
                 (case p_InstanceView (Properties instance) of
                    Some view \<Rightarrow>
                      if (length id' = 0 \<or> length ip = 0) \<and> length (iv_PrivateIpAddress view) > 0
                      then (if length id' = 0
                            then ID (self s1) @ ''/'' @ iv_PrivateIpAddress view else id',
                            if length ip = 0 then iv_PrivateIpAddress view else ip)
                      else (id', ip)
                  | None \<Rightarrow> (id', ip))
           in if length id' > 0 \<and> length ip > 0
              then (Inr [\<lparr>nic_IP = ip, nic_ID = id'\<rparr>], s1)
              else (Inr [], s1)))"

definition GetINics :: "env \<Rightarrow> st \<Rightarrow> (error + SClassicInstanceNic list) \<times> st" where
  "GetINics e s =
     (case getNics e s of
        (Inl err, s1) \<Rightarrow> (Inl err, s1)
      | (Inr nics, s1) \<Rightarrow> (Inr nics, s1))"

definition GetClassicInstances :: "env \<Rightarrow> st \<Rightarrow> (error + SClassicInstance list) \<times> st" where
  "GetClassicInstances e s =
     (case remote (Call_list ''Microsoft.ClassicCompute/virtualMachines'' [])
             (\<lambda>h. r_list_instances (region e) h ''Microsoft.ClassicCompute/virtualMachines'' []) s of
        (Inl err, s1) \<Rightarrow> (Inl err, s1)
      | (Inr instances, s1) \<Rightarrow> (Inr instances, s1))"

definition GetClassicInstanceDisks :: "env \<Rightarrow> string \<Rightarrow> st \<Rightarrow> (error + SClassicDisk list) \<times> st" where
  "GetClassicInstanceDisks e instanceId s =
     (let resource = instanceId @ ''/disks''
      in case remote (Call_get resource []) (\<lambda>h. r_get_disks (region e) h resource []) s of
           (Inl err, s1) \<Rightarrow> (Inl (Wrapf err ''list''), s1)
         | (Inr v, s1) \<Rightarrow> (Inr v, s1))"

definition GetIDisks :: "env \<Rightarrow> st \<Rightarrow> (error + SClassicDisk list) \<times> st" where
  "GetIDisks e s =
     (case GetClassicInstanceDisks e (ID (self s)) s of
        (Inl err, s1) \<Rightarrow> (Inl (Wrapf err ''GetClassicInstanceDisks''), s1)
      | (Inr disks, s1) \<Rightarrow> (Inr disks, s1))"

subsection \<open>Status\<close>

definition Refresh :: "env \<Rightarrow> st \<Rightarrow> error option \<times> st" where
  "Refresh e s =
     (case GetClassicInstance e (ID (self s)) s of
        (Inl err, s1) \<Rightarrow> (Some err, s1)
      | (Inr instance, s1) \<Rightarrow>
          (case jsonutils_Update e (self s1) instance of
             (r, self') \<Rightarrow> (r, s1\<lparr>self := self'\<rparr>)))"

text \<open>
  The \<^verbatim>\<open>switch\<close> of \<^verbatim>\<open>GetStatus\<close>. It reads \<^verbatim>\<open>self.Properties.InstanceView.Status\<close>
  through the pointer, which panics when the pointer is nil.
\<close>

definition GetStatus_switch :: "st \<Rightarrow> vm_status outcome \<times> st" where
  "GetStatus_switch s =
     (case p_InstanceView (Properties (self s)) of
        None \<Rightarrow> (Panic, s)
      | Some view \<Rightarrow>
          if iv_Status view = ''StoppedDeallocated'' then (Return VM_READY, s)
          else if iv_Status view = ''ReadyRole'' then (Return VM_RUNNING, s)
          else if iv_Status view = ''Stopped'' then (Return VM_READY, s)
          else if iv_Status view = ''RoleStateUnknown'' then (Return VM_UNKNOWN, s)
          else (Return VM_UNKNOWN,
                log_Errorf (''Unknow classic instance '' @ Name (self s) @ '' status '' @
                            iv_Status view) s))"

definition GetStatus :: "env \<Rightarrow> st \<Rightarrow> vm_status outcome \<times> st" where
  "GetStatus e s =
     (case p_InstanceView (Properties (self s)) of
        None \<Rightarrow>
          (case Refresh e s of
             (Some err, s1) \<Rightarrow>
               (Return VM_UNKNOWN,
                log_Errorf (''failed to get status for classic instance '' @ Name (self s1)) s1)
           | (None, s1) \<Rightarrow> GetStatus_switch s1)
      | Some view \<Rightarrow> GetStatus_switch s)"

subsection \<open>Lifecycle operations\<close>

definition AttachDisk :: "env \<Rightarrow> string \<Rightarrow> st \<Rightarrow> error option outcome \<times> st" where
  "AttachDisk e diskId s =
     (case GetStatus e s of
        (Panic, s1) \<Rightarrow> (Panic, s1)
      | (Return status, s1) \<Rightarrow>
          (case remote (Call_AttachDisk (ID (self s1)) diskId)
                  (\<lambda>h. r_AttachDisk (region e) h (ID (self s1)) diskId) s1 of
             (Some err, s2) \<Rightarrow> (Return (Some err), s2)
           | (None, s2) \<Rightarrow> WaitStatus e s2 status (10 * Second) (300 * Second)))"

definition DetachDisk :: "env \<Rightarrow> string \<Rightarrow> st \<Rightarrow> error option outcome \<times> st" where
  "DetachDisk e diskId s =
     (case GetStatus e s of
        (Panic, s1) \<Rightarrow> (Panic, s1)
      | (Return status, s1) \<Rightarrow>
          (case remote (Call_DetachDisk (ID (self s1)) diskId)
                  (\<lambda>h. r_DetachDisk (region e) h (ID (self s1)) diskId) s1 of
             (Some err, s2) \<Rightarrow> (Return (Some err), s2)
           | (None, s2) \<Rightarrow> WaitStatus e s2 status (10 * Second) (300 * Second)))"

definition StartVM :: "env \<Rightarrow> st \<Rightarrow> error option outcome \<times> st" where
  "StartVM e s =
     (case remote (Call_StartVM (ID (self s))) (\<lambda>h. r_StartVM (region e) h (ID (self s))) s of
        (Some err, s1) \<Rightarrow> (Return (Some err), s1)
      | (None, s1) \<Rightarrow> WaitStatus e s1 VM_RUNNING (10 * Second) (300 * Second))"

text \<open>\<^verbatim>\<open>StopClassicVM\<close> performs \<^verbatim>\<open>shutdown\<close> with no payload and does not use \<^verbatim>\<open>isForce\<close>.\<close>

definition StopClassicVM :: "env \<Rightarrow> string \<Rightarrow> bool \<Rightarrow> st \<Rightarrow> error option \<times> st" where
  "StopClassicVM e instanceId isForce s =
     remote (Call_perform instanceId ''shutdown'')
       (\<lambda>h. r_perform (region e) h instanceId ''shutdown'') s"

text \<open>\<^verbatim>\<open>opts\<close> is a pointer: reading \<^verbatim>\<open>opts.IsForce\<close> panics when it is nil.\<close>

definition StopVM :: "env \<Rightarrow> ServerStopOptions option \<Rightarrow> st \<Rightarrow> error option outcome \<times> st" where
  "StopVM e opts s =
     (case opts of
        None \<Rightarrow> (Panic, s)
      | Some opt \<Rightarrow>
          (case StopClassicVM e (ID (self s)) (IsForce opt) s of
             (Some err, s1) \<Rightarrow> (Return (Some err), s1)
           | (None, s1) \<Rightarrow> WaitStatus e s1 VM_READY (10 * Second) (300 * Second)))"

text \<open>The two \<^verbatim>\<open>del\<close> calls of \<^verbatim>\<open>DeleteVM\<close> are statements: their results are dropped.\<close>

definition DeleteVM :: "env \<Rightarrow> st \<Rightarrow> error option \<times> st" where
  "DeleteVM e s =
     (case remote (Call_DeleteVM (ID (self s))) (\<lambda>h. r_DeleteVM (region e) h (ID (self s))) s of
        (Some err, s1) \<Rightarrow> (Some err, s1)
      | (None, s1) \<Rightarrow>
          (let s2 = (case np_NetworkSecurityGroup (p_NetworkProfile (Properties (self s1))) of
                       Some nsg \<Rightarrow>
                         snd (remote (Call_del (sr_ID nsg)) (\<lambda>h. r_del (region e) h (sr_ID nsg)) s1)
                     | None \<Rightarrow> s1);
               s3 = (case p_DomainName (Properties (self s2)) of
                       Some dn \<Rightarrow>
                         snd (remote (Call_del (sr_ID dn)) (\<lambda>h. r_del (region e) h (sr_ID dn)) s2)
                     | None \<Rightarrow> s2)
           in (None, s3)))"

subsection \<open>Sizes\<close>

definition GetVcpuCount :: "env \<Rightarrow> st \<Rightarrow> int \<times> st" where
  "GetVcpuCount e s =
     (case CLASSIC_VM_SIZES e (hp_Size (p_HardwareProfile (Properties (self s)))) of
        Some vmSize \<Rightarrow> (NumberOfCores vmSize, s)
      | None \<Rightarrow>
          (0, log_Errorf (''failed to find classic VMSize for '' @
                          hp_Size (p_HardwareProfile (Properties (self s)))) s))"

definition GetVmemSizeMB :: "env \<Rightarrow> st \<Rightarrow> int \<times> st" where
  "GetVmemSizeMB e s =
     (case CLASSIC_VM_SIZES e (hp_Size (p_HardwareProfile (Properties (self s)))) of
        Some vmSize \<Rightarrow> (MemoryInMB vmSize, s)
      | None \<Rightarrow>
          (0, log_Errorf (''failed to find classic VMSize for '' @
                          hp_Size (p_HardwareProfile (Properties (self s)))) s))"

subsection \<open>Operations the classic model does not offer\<close>

text \<open>
  The argument types (\<^verbatim>\<open>ServerVncInput\<close>, \<^verbatim>\<open>SBillingCycle\<close>, the change and rebuild
  configurations) are declared elsewhere and never inspected, so they are type variables.
\<close>

definition GetVNCInfo :: "'input \<Rightarrow> st \<Rightarrow> (error + 'output) \<times> st" where
  "GetVNCInfo input s = (Inl ErrNotSupported, s)"

definition SetSecurityGroups :: "string list \<Rightarrow> st \<Rightarrow> error option \<times> st" where
  "SetSecurityGroups secgroupIds s = (Some ErrNotSupported, s)"

definition UpdateUserData :: "string \<Rightarrow> st \<Rightarrow> error option \<times> st" where
  "UpdateUserData userData s = (Some ErrNotSupported, s)"

definition Renew :: "'cycle \<Rightarrow> st \<Rightarrow> error option \<times> st" where
  "Renew bc s = (Some ErrNotSupported, s)"

definition UpdateVM :: "'input \<Rightarrow> st \<Rightarrow> error option \<times> st" where
  "UpdateVM input s = (Some ErrNotSupported, s)"

definition ChangeConfig :: "'config \<Rightarrow> st \<Rightarrow> error option \<times> st" where
  "ChangeConfig config s = (Some ErrNotImplemented, s)"

definition DeployVM ::
  "string \<Rightarrow> string \<Rightarrow> string \<Rightarrow> string \<Rightarrow> bool \<Rightarrow> string \<Rightarrow> st \<Rightarrow> error option \<times> st" where
  "DeployVM name username password publicKey deleteKeypair description s =
     (Some ErrNotImplemented, s)"

definition RebuildRoot :: "'desc \<Rightarrow> st \<Rightarrow> (error + string) \<times> st" where
  "RebuildRoot desc s = (Inl ErrNotImplemented, s)"

subsection \<open>External address\<close>

text \<open>
  The \<^verbatim>\<open>for\<close> loop of \<^verbatim>\<open>GetIEIP\<close> over the reserved IPs. \<open>Some r\<close> is a
  \<^verbatim>\<open>return\<close> from inside the loop, \<open>None\<close> is the loop running to its end.
\<close>

fun GetIEIP_loop ::
  "env \<Rightarrow> SubResource list \<Rightarrow> st \<Rightarrow> SClassicEipAddress option option \<times> st" where
  "GetIEIP_loop e [] s = (None, s)"
| "GetIEIP_loop e (reserveIp # rest) s =
     (case remote (Call_GetClassicEip (sr_ID reserveIp))
             (\<lambda>h. r_GetClassicEip (region e) h (sr_ID reserveIp)) s of
        (Inr eip, s1) \<Rightarrow>
          (let eip = eip\<lparr>eip_instanceId := ID (self s1)\<rparr>
           in case eip_AttachedTo (eip_Properties eip) of
                Some attached \<Rightarrow>
                  if sr_ID attached \<noteq> ID (self s1) then (Some None, s1)
                  else (Some (Some eip), s1)
              | None \<Rightarrow> (Some (Some eip), s1))
      | (Inl err, s1) \<Rightarrow>
          GetIEIP_loop e rest
            (log_Errorf (''failed find eip '' @ sr_Name reserveIp @
                         '' for classic instance '' @ Name (self s1)) s1))"

definition GetIEIP :: "env \<Rightarrow> st \<Rightarrow> (error + SClassicEipAddress option) \<times> st" where
  "GetIEIP e s =
     (case (case np_ReservedIps (p_NetworkProfile (Properties (self s))) of
              Some reservedIps \<Rightarrow>
                if length reservedIps > 0 then GetIEIP_loop e reservedIps s else (None, s)
            | None \<Rightarrow> (None, s)) of
        (Some r, s1) \<Rightarrow> (Inr r, s1)
      | (None, s1) \<Rightarrow>
          (case p_InstanceView (Properties (self s1)) of
             Some view \<Rightarrow>
               (case iv_PublicIpAddresses view of
                  first # _ \<Rightarrow>
                    (Inr (Some \<lparr>eip_ID = ID (self s1), eip_instanceId = ID (self s1),
                                eip_Name = first,
                                eip_Properties =
                                  \<lparr>eip_IpAddress = first, eip_AttachedTo = None\<rparr>\<rparr>),
                     s1)
                | [] \<Rightarrow> (Inr None, s1))
           | None \<Rightarrow> (Inr None, s1)))"

subsection \<open>Security groups\<close>

definition GetSecurityGroupIds :: "st \<Rightarrow> (error + string list) \<times> st" where
  "GetSecurityGroupIds s =
     (case np_NetworkSecurityGroup (p_NetworkProfile (Properties (self s))) of
        Some nsg \<Rightarrow> (Inr ([] @ [sr_ID nsg]), s)
      | None \<Rightarrow> (Inr [], s))"

text \<open>
  The \<^verbatim>\<open>del\<close> of the old association is a statement: its result is dropped. The payload
  of \<^verbatim>\<open>update\<close> is the marshalled \<^verbatim>\<open>assignSecurityGroup\<close> value, kept here as the value.
\<close>

definition AssignSecurityGroup :: "env \<Rightarrow> string \<Rightarrow> st \<Rightarrow> error option \<times> st" where
  "AssignSecurityGroup e secgroupId s =
     (let current = np_NetworkSecurityGroup (p_NetworkProfile (Properties (self s)))
      in if (case current of Some nsg \<Rightarrow> sr_ID nsg = secgroupId | None \<Rightarrow> False)
         then (None, s)
         else
           (let s1 = (case current of
                        Some nsg \<Rightarrow>
                          (let old = ID (self s) @ ''/associatedNetworkSecurityGroups/'' @ sr_Name nsg
                           in snd (remote (Call_del old) (\<lambda>h. r_del (region e) h old) s))
                      | None \<Rightarrow> s)
            in case remote (Call_GetClassicSecurityGroupDetails secgroupId)
                      (\<lambda>h. r_GetClassicSecurityGroupDetails (region e) h secgroupId) s1 of
                 (Inl err, s2) \<Rightarrow> (Some err, s2)
               | (Inr secgroup, s2) \<Rightarrow>
                   (let data = \<lparr>asg_ID = ID (self s2) @ ''/associatedNetworkSecurityGroups/'' @
                                         sg_Name secgroup,
                                asg_Name = sg_Name secgroup,
                                asg_Properties =
                                  \<lparr>ap_NetworkSecurityGroup =
                                     \<lparr>sr_ID = sg_ID secgroup, sr_Name = sg_Name secgroup,
                                      sr_Type = ''''\<rparr>\<rparr>,
                                asg_Type = ''''\<rparr>
                    in remote (Call_update data) (\<lambda>h. r_update (region e) h data) s2)))"

subsection \<open>The resolver and the normalizer as the specification words them\<close>

text \<open>
  The network identity resolver as the specification describes it, with "unset" as
  \<open>None\<close>: the id from the first subnet name, the ip from the static address, either
  one completed (never replaced) from the private IP of the live snapshot, and a pair
  only when both are set and non-empty.
\<close>

definition resolveNetworkIdentity :: "string \<Rightarrow> SClassicInstance \<Rightarrow> (string \<times> string) option" where
  "resolveNetworkIdentity instanceId record =
     (let vn = np_VirtualNetwork (p_NetworkProfile (Properties record));
          static_id = (case vn_SubnetNames vn of
                         firstSubnetName # _ \<Rightarrow> Some (vn_ID vn @ ''/'' @ firstSubnetName)
                       | [] \<Rightarrow> None);
          static_ip = (if vn_StaticIpAddress vn = [] then None else Some (vn_StaticIpAddress vn));
          live = (case p_InstanceView (Properties record) of
                    Some view \<Rightarrow>
                      if iv_PrivateIpAddress view = [] then None
                      else Some (iv_PrivateIpAddress view)
                  | None \<Rightarrow> None);
          final_id = (case static_id of
                        Some i \<Rightarrow> Some i
                      | None \<Rightarrow> map_option (\<lambda>privateIp. instanceId @ ''/'' @ privateIp) live);
          final_ip = (case static_ip of Some p \<Rightarrow> Some p | None \<Rightarrow> live)
      in case (final_id, final_ip) of
           (Some i, Some p) \<Rightarrow> if i = [] then None else if p = [] then None else Some (i, p)
         | (Some i, None) \<Rightarrow> None
         | (None, _) \<Rightarrow> None)"

text \<open>The documented status mapping, as a lookup table.\<close>

definition StatusMapping :: "(string \<times> vm_status) list" where
  "StatusMapping =
     [(''StoppedDeallocated'', VM_READY), (''ReadyRole'', VM_RUNNING),
      (''Stopped'', VM_READY), (''RoleStateUnknown'', VM_UNKNOWN)]"

subsection \<open>Vocabulary for the reserved-IP scan\<close>

text \<open>
  The reserved IPs of the receiver (none when the pointer is nil), the candidates whose
  fetch fails before the first fetch that succeeds, and the record that this first
  successful fetch returns. The fetches are issued in list order, each one after the
  calls before it.
\<close>

definition reserved_candidates :: "st \<Rightarrow> SubResource list" where
  "reserved_candidates s =
     (case np_ReservedIps (p_NetworkProfile (Properties (self s))) of
        Some reservedIps \<Rightarrow> reservedIps
      | None \<Rightarrow> [])"

fun failed_before :: "env \<Rightarrow> remote_call list \<Rightarrow> SubResource list \<Rightarrow> SubResource list" where
  "failed_before e h [] = []"
| "failed_before e h (c # cs) =
     (case r_GetClassicEip (region e) h (sr_ID c) of
        Inr eip \<Rightarrow> []
      | Inl err \<Rightarrow> c # failed_before e (h @ [Call_GetClassicEip (sr_ID c)]) cs)"

fun first_fetched :: "env \<Rightarrow> remote_call list \<Rightarrow> SubResource list \<Rightarrow> SClassicEipAddress option" where
  "first_fetched e h [] = None"
| "first_fetched e h (c # cs) =
     (case r_GetClassicEip (region e) h (sr_ID c) of
        Inr eip \<Rightarrow> Some eip
      | Inl err \<Rightarrow> first_fetched e (h @ [Call_GetClassicEip (sr_ID c)]) cs)"

definition attached_elsewhere :: "string \<Rightarrow> SClassicEipAddress \<Rightarrow> bool" where
  "attached_elsewhere instanceId eip =
     (case eip_AttachedTo (eip_Properties eip) of
        Some attached \<Rightarrow> sr_ID attached \<noteq> instanceId
      | None \<Rightarrow> False)"

text \<open>The external address synthesized from the first public IP of the live snapshot.\<close>

definition public_fallback :: "SClassicInstance \<Rightarrow> SClassicEipAddress option" where
  "public_fallback i =
     (case p_InstanceView (Properties i) of
        Some view \<Rightarrow>
          (case iv_PublicIpAddresses view of
             first # _ \<Rightarrow>
               Some \<lparr>eip_ID = ID i, eip_instanceId = ID i, eip_Name = first,
                     eip_Properties = \<lparr>eip_IpAddress = first, eip_AttachedTo = None\<rparr>\<rparr>
           | [] \<Rightarrow> None)
      | None \<Rightarrow> None)"

definition eip_log :: "st \<Rightarrow> SubResource \<Rightarrow> string" where
  "eip_log s c = ''failed find eip '' @ sr_Name c @ '' for classic instance '' @ Name (self s)"

subsection \<open>Sample data\<close>

definition example_view :: "string \<Rightarrow> ClassicVirtualMachineInstanceView" where
  "example_view status =
     \<lparr>iv_Status = status, iv_PowerState = ''Started'',
      iv_PublicIpAddresses = [''52.0.0.9'', ''52.0.0.10''], iv_PrivateIpAddress = ''10.0.0.7''\<rparr>"

definition example_vnet :: ClassicVirtualNetwork where
  "example_vnet =
     \<lparr>vn_StaticIpAddress = ''10.0.0.4'', vn_SubnetNames = [''front'', ''back''],
      vn_ID = ''/vnets/net1'', vn_Name = ''net1'', vn_Type = ''vnet''\<rparr>"

definition example_instance :: SClassicInstance where
  "example_instance =
     \<lparr>Properties =
        \<lparr>p_DomainName = Some \<lparr>sr_ID = ''/domains/d1'', sr_Name = ''d1'', sr_Type = ''domain''\<rparr>,
         p_InstanceView = None,
         p_NetworkProfile =
           \<lparr>np_ReservedIps = None, np_VirtualNetwork = example_vnet,
            np_NetworkSecurityGroup =
              Some \<lparr>sr_ID = ''/nsgs/g1'', sr_Name = ''g1'', sr_Type = ''nsg''\<rparr>\<rparr>,
         p_HardwareProfile = \<lparr>hp_Size = ''Huge''\<rparr>\<rparr>,
      ID = ''/vms/vm1'', Name = ''vm1'', Type = ''Microsoft.ClassicCompute/virtualMachines'',
      Location = ''eastus''\<rparr>"

definition with_view ::
  "ClassicVirtualMachineInstanceView option \<Rightarrow> SClassicInstance \<Rightarrow> SClassicInstance" where
  "with_view v i = i\<lparr>Properties := (Properties i)\<lparr>p_InstanceView := v\<rparr>\<rparr>"

definition with_reserved :: "SubResource list option \<Rightarrow> SClassicInstance \<Rightarrow> SClassicInstance" where
  "with_reserved r i =
     i\<lparr>Properties := (Properties i)
          \<lparr>p_NetworkProfile := (p_NetworkProfile (Properties i))\<lparr>np_ReservedIps := r\<rparr>\<rparr>\<rparr>"

definition with_vnet :: "ClassicVirtualNetwork \<Rightarrow> SClassicInstance \<Rightarrow> SClassicInstance" where
  "with_vnet vn i =
     i\<lparr>Properties := (Properties i)
          \<lparr>p_NetworkProfile := (p_NetworkProfile (Properties i))\<lparr>np_VirtualNetwork := vn\<rparr>\<rparr>\<rparr>"

text \<open>A region where every call succeeds, and one where every call fails.\<close>

definition example_region :: SRegion where
  "example_region =
     \<lparr>r_get_instance = (\<lambda>h i p. Inr (with_view (Some (example_view ''ReadyRole'')) example_instance)),
      r_get_disks = (\<lambda>h i p. Inr []),
      r_list_instances = (\<lambda>h i p. Inr [example_instance]),
      r_del = (\<lambda>h i. None),
      r_update = (\<lambda>h d. None),
      r_perform = (\<lambda>h i a. None),
      r_AttachDisk = (\<lambda>h i d. None),
      r_DetachDisk = (\<lambda>h i d. None),
      r_StartVM = (\<lambda>h i. None),
      r_DeleteVM = (\<lambda>h i. None),
      r_GetClassicEip = (\<lambda>h i. Inr \<lparr>eip_ID = i, eip_instanceId = '''', eip_Name = ''eip'',
                                     eip_Properties = \<lparr>eip_IpAddress = ''40.0.0.1'',
                                                       eip_AttachedTo = None\<rparr>\<rparr>),
      r_GetClassicSecurityGroupDetails = (\<lambda>h i. Inr \<lparr>sg_ID = i, sg_Name = ''g2''\<rparr>)\<rparr>"

definition failing_region :: SRegion where
  "failing_region =
     \<lparr>r_get_instance = (\<lambda>h i p. Inl (RemoteFailure ''get'')),
      r_get_disks = (\<lambda>h i p. Inl (RemoteFailure ''get'')),
      r_list_instances = (\<lambda>h i p. Inl (RemoteFailure ''list'')),
      r_del = (\<lambda>h i. Some (RemoteFailure ''del'')),
      r_update = (\<lambda>h d. Some (RemoteFailure ''update'')),
      r_perform = (\<lambda>h i a. Some (RemoteFailure ''perform'')),
      r_AttachDisk = (\<lambda>h i d. Some (RemoteFailure ''attach'')),
      r_DetachDisk = (\<lambda>h i d. Some (RemoteFailure ''detach'')),
      r_StartVM = (\<lambda>h i. Some (RemoteFailure ''start'')),
      r_DeleteVM = (\<lambda>h i. Some (RemoteFailure ''delete'')),
      r_GetClassicEip = (\<lambda>h i. Inl (RemoteFailure ''eip'')),
      r_GetClassicSecurityGroupDetails = (\<lambda>h i. Inl (RemoteFailure ''secgroup''))\<rparr>"

text \<open>
  The collaborators of the samples: an update that replaces the receiver by the fetched
  record, a one-line size table, and a wait that returns success at once.
\<close>

definition example_env :: "SRegion \<Rightarrow> env" where
  "example_env r =
     \<lparr>region = r,
      jsonutils_Update = (\<lambda>dst src. (None, src)),
      CLASSIC_VM_SIZES = [''Small'' \<mapsto> \<lparr>NumberOfCores = 1, MemoryInMB = 1792\<rparr>],
      WaitStatus = (\<lambda>s expect interval timeout. (Return None, s))\<rparr>"

definition example_state :: "SClassicInstance \<Rightarrow> st" where
  "example_state i = \<lparr>self = i, calls = [], logs = []\<rparr>"

text \<open>
  A region whose reserved IP \<^verbatim>\<open>/rips/down\<close> cannot be fetched, whose reserved IP
  \<^verbatim>\<open>/rips/moved\<close> is attached to another machine, and whose other reserved IPs are
  attached to nothing.
\<close>

definition example_eip :: "string \<Rightarrow> SubResource option \<Rightarrow> SClassicEipAddress" where
  "example_eip i attached =
     \<lparr>eip_ID = i, eip_instanceId = '''', eip_Name = ''eip'',
      eip_Properties = \<lparr>eip_IpAddress = ''40.0.0.1'', eip_AttachedTo = attached\<rparr>\<rparr>"

definition reserved_region :: SRegion where
  "reserved_region =
     example_region
       \<lparr>r_GetClassicEip :=
          (\<lambda>h i. if i = ''/rips/down'' then Inl (RemoteFailure ''eip'')
                 else if i = ''/rips/moved''
                 then Inr (example_eip i (Some \<lparr>sr_ID = ''/vms/other'', sr_Name = ''other'',
                                                sr_Type = ''vm''\<rparr>))
                 else Inr (example_eip i None))\<rparr>"

definition rip :: "string \<Rightarrow> SubResource" where
  "rip n = \<lparr>sr_ID = ''/rips/'' @ n, sr_Name = n, sr_Type = ''rip''\<rparr>"

definition with_nsg :: "SubResource option \<Rightarrow> SClassicInstance \<Rightarrow> SClassicInstance" where
  "with_nsg g i =
     i\<lparr>Properties := (Properties i)
          \<lparr>p_NetworkProfile := (p_NetworkProfile (Properties i))\<lparr>np_NetworkSecurityGroup := g\<rparr>\<rparr>\<rparr>"

text \<open>Regions where only the deletions fail, and where only the update fails.\<close>

definition del_failing_region :: SRegion where
  "del_failing_region = example_region\<lparr>r_del := (\<lambda>h i. Some (RemoteFailure ''del''))\<rparr>"

definition update_failing_region :: SRegion where
  "update_failing_region = example_region\<lparr>r_update := (\<lambda>h d. Some (RemoteFailure ''update''))\<rparr>"

text \<open>A region whose fetch of the instance answers with the given record.\<close>

definition fetched_region :: "SClassicInstance \<Rightarrow> SRegion" where
  "fetched_region i = example_region\<lparr>r_get_instance := (\<lambda>h j p. Inr i)\<rparr>"

section \<open>Properties\<close>

subsection \<open>Auxiliary facts\<close>

lemma GetClassicInstance_eq:
  "GetClassicInstance e i s =
     (r_get_instance (region e) (calls s) i [(''$expand'', ''instanceView'')],
      s\<lparr>calls := calls s @ [Call_get i [(''$expand'', ''instanceView'')]]\<rparr>)"
  by (simp add: GetClassicInstance_def remote_def Let_def)

lemma Refresh_calls:
  "calls (snd (Refresh e s)) = calls s @ [Call_get (ID (self s)) [(''$expand'', ''instanceView'')]]"
  by (simp add: Refresh_def GetClassicInstance_eq split: sum.splits prod.splits)

lemma Refresh_logs: "logs (snd (Refresh e s)) = logs s"
  by (simp add: Refresh_def GetClassicInstance_eq split: sum.splits prod.splits)

lemma GetStatus_switch_calls: "calls (snd (GetStatus_switch s)) = calls s"
  by (simp add: GetStatus_switch_def log_Errorf_def split: option.splits)

lemma GetStatus_switch_self: "self (snd (GetStatus_switch s)) = self s"
  by (simp add: GetStatus_switch_def log_Errorf_def split: option.splits)

lemma GetIEIP_loop_scan:
  "GetIEIP_loop e cs s =
     (case first_fetched e (calls s) cs of
        Some eip \<Rightarrow>
          Some (if attached_elsewhere (ID (self s)) eip then None
                else Some (eip\<lparr>eip_instanceId := ID (self s)\<rparr>))
      | None \<Rightarrow> None,
      s\<lparr>calls := calls s @ map (\<lambda>c. Call_GetClassicEip (sr_ID c))
                            (take (Suc (length (failed_before e (calls s) cs))) cs),
        logs := logs s @ map (eip_log s) (failed_before e (calls s) cs)\<rparr>)"
proof (induction cs arbitrary: s)
  case Nil
  show ?case by simp
next
  case (Cons c cs)
  show ?case
  proof (cases "r_GetClassicEip (region e) (calls s) (sr_ID c)")
    case (Inl err)
    then show ?thesis
      by (simp add: Cons.IH remote_def log_Errorf_def eip_log_def split: option.splits)
  next
    case (Inr eip)
    then show ?thesis
      by (simp add: remote_def attached_elsewhere_def Let_def split: option.splits)
  qed
qed

lemma GetIEIP_scan:
  "GetIEIP e s =
     (Inr (case first_fetched e (calls s) (reserved_candidates s) of
             Some eip \<Rightarrow>
               if attached_elsewhere (ID (self s)) eip then None
               else Some (eip\<lparr>eip_instanceId := ID (self s)\<rparr>)
           | None \<Rightarrow> public_fallback (self s)),
      s\<lparr>calls := calls s @ map (\<lambda>c. Call_GetClassicEip (sr_ID c))
                            (take (Suc (length (failed_before e (calls s) (reserved_candidates s))))
                               (reserved_candidates s)),
        logs := logs s @ map (eip_log s) (failed_before e (calls s) (reserved_candidates s))\<rparr>)"
  by (simp add: GetIEIP_def GetIEIP_loop_scan reserved_candidates_def public_fallback_def
           split: option.splits list.splits)

subsection \<open>Network identity\<close>

text \<open>
  C1. When the fetch of the instance record succeeds, \<^verbatim>\<open>getNics\<close> issues that one
  fetch and returns what the resolver of the specification computes from the fetched
  record: the id from the first subnet name and the ip from the static address, the
  private IP of the instance view completing only what is still empty, and a nic only
  when both are non-empty; otherwise it returns no nic and no error. A returned nic
  always carries the static id when a subnet name exists and the static ip when a static
  address exists.
\<close>

theorem getNics_precedence:
  assumes "r_get_instance (region e) (calls s) (ID (self s)) [(''$expand'', ''instanceView'')]
             = Inr instance"
  shows "getNics e s =
           (Inr (case resolveNetworkIdentity (ID (self s)) instance of
                   None \<Rightarrow> []
                 | Some (id', ip) \<Rightarrow> [\<lparr>nic_IP = ip, nic_ID = id'\<rparr>]),
            s\<lparr>calls := calls s @ [Call_get (ID (self s)) [(''$expand'', ''instanceView'')]]\<rparr>)
         \<and> (\<forall>nic \<in> set (case fst (getNics e s) of Inr nics \<Rightarrow> nics | Inl err \<Rightarrow> []).
               nic_ID nic \<noteq> [] \<and> nic_IP nic \<noteq> [] \<and>
               (vn_SubnetNames (np_VirtualNetwork (p_NetworkProfile (Properties instance))) \<noteq> [] \<longrightarrow>
                  nic_ID nic =
                    vn_ID (np_VirtualNetwork (p_NetworkProfile (Properties instance))) @ ''/'' @
                    hd (vn_SubnetNames (np_VirtualNetwork (p_NetworkProfile (Properties instance))))) \<and>
               (vn_StaticIpAddress (np_VirtualNetwork (p_NetworkProfile (Properties instance))) \<noteq> [] \<longrightarrow>
                  nic_IP nic =
                    vn_StaticIpAddress (np_VirtualNetwork (p_NetworkProfile (Properties instance)))))"
  using assms
  by (auto simp: getNics_def GetClassicInstance_eq resolveNetworkIdentity_def Let_def hd_conv_nth
           split: option.splits list.splits)

lemma sample_id: "ID (self (example_state i)) = ID i"
  by (simp add: example_state_def)

lemma sample_vm_id: "ID example_instance = ''/vms/vm1''"
  by (simp add: example_instance_def)

lemma sample_fetch_static:
  "r_get_instance (region (example_env example_region)) (calls (example_state example_instance))
     (ID (self (example_state example_instance))) [(''$expand'', ''instanceView'')]
   = Inr (with_view (Some (example_view ''ReadyRole'')) example_instance)"
  by (simp add: example_env_def example_region_def)

lemma sample_resolve_static:
  "resolveNetworkIdentity ''/vms/vm1'' (with_view (Some (example_view ''ReadyRole'')) example_instance)
   = Some (''/vnets/net1/front'', ''10.0.0.4'')"
  by (simp add: resolveNetworkIdentity_def with_view_def example_instance_def example_vnet_def
        example_view_def)

lemma sample_fetch_live:
  "r_get_instance
     (region (example_env (example_region
        \<lparr>r_get_instance :=
           (\<lambda>h i p. Inr (with_vnet (example_vnet\<lparr>vn_StaticIpAddress := [], vn_SubnetNames := []\<rparr>)
                           (with_view (Some (example_view ''Stopped'')) example_instance)))\<rparr>)))
     (calls (example_state example_instance))
     (ID (self (example_state example_instance))) [(''$expand'', ''instanceView'')]
   = Inr (with_vnet (example_vnet\<lparr>vn_StaticIpAddress := [], vn_SubnetNames := []\<rparr>)
            (with_view (Some (example_view ''Stopped'')) example_instance))"
  by (simp add: example_env_def)

lemma sample_resolve_live:
  "resolveNetworkIdentity ''/vms/vm1''
     (with_vnet (example_vnet\<lparr>vn_StaticIpAddress := [], vn_SubnetNames := []\<rparr>)
        (with_view (Some (example_view ''Stopped'')) example_instance))
   = Some (''/vms/vm1/10.0.0.7'', ''10.0.0.7'')"
  by (simp add: resolveNetworkIdentity_def with_view_def with_vnet_def example_instance_def
        example_vnet_def example_view_def)

theorem getNics_precedence_witness:
  "r_get_instance (region (example_env example_region)) (calls (example_state example_instance))
     (ID (self (example_state example_instance))) [(''$expand'', ''instanceView'')]
   = Inr (with_view (Some (example_view ''ReadyRole'')) example_instance)
   \<and> fst (getNics (example_env example_region) (example_state example_instance))
     = Inr [\<lparr>nic_IP = ''10.0.0.4'', nic_ID = ''/vnets/net1/front''\<rparr>]
   \<and> fst (getNics
            (example_env (example_region
               \<lparr>r_get_instance :=
                  (\<lambda>h i p. Inr (with_vnet (example_vnet\<lparr>vn_StaticIpAddress := [], vn_SubnetNames := []\<rparr>)
                                  (with_view (Some (example_view ''Stopped'')) example_instance)))\<rparr>))
            (example_state example_instance))
     = Inr [\<lparr>nic_IP = ''10.0.0.7'', nic_ID = ''/vms/vm1/10.0.0.7''\<rparr>]"
proof -
  have static: "fst (getNics (example_env example_region) (example_state example_instance))
                = Inr [\<lparr>nic_IP = ''10.0.0.4'', nic_ID = ''/vnets/net1/front''\<rparr>]"
    using getNics_precedence [OF sample_fetch_static]
    by (simp add: sample_id sample_vm_id sample_resolve_static)
  have live: "fst (getNics
            (example_env (example_region
               \<lparr>r_get_instance :=
                  (\<lambda>h i p. Inr (with_vnet (example_vnet\<lparr>vn_StaticIpAddress := [], vn_SubnetNames := []\<rparr>)
                                  (with_view (Some (example_view ''Stopped'')) example_instance)))\<rparr>))
            (example_state example_instance))
     = Inr [\<lparr>nic_IP = ''10.0.0.7'', nic_ID = ''/vms/vm1/10.0.0.7''\<rparr>]"
    using getNics_precedence [OF sample_fetch_live]
    by (simp add: sample_id sample_vm_id sample_resolve_live)
  from sample_fetch_static static live show ?thesis
    by (intro conjI)
qed

subsection \<open>Status\<close>

lemma sample_view: "p_InstanceView (Properties (self (example_state (with_view v i)))) = v"
  by (simp add: example_state_def with_view_def)

lemma with_view_view: "p_InstanceView (Properties (with_view v i)) = v"
  by (simp add: with_view_def)

lemma sample_name: "Name (self (example_state (with_view v example_instance))) = ''vm1''"
  by (simp add: example_state_def with_view_def example_instance_def)

lemma sample_status: "iv_Status (example_view raw) = raw"
  by (simp add: example_view_def)

lemma sample_logs: "logs (example_state i) = []"
  by (simp add: example_state_def)

lemma sample_calls: "calls (example_state i) = []"
  by (simp add: example_state_def)

lemma sample_refresh_fetched:
  "Refresh (example_env (fetched_region i)) (example_state example_instance) =
     (None, (example_state i)\<lparr>calls := [Call_get ''/vms/vm1'' [(''$expand'', ''instanceView'')]]\<rparr>)"
  by (simp add: Refresh_def GetClassicInstance_eq example_env_def fetched_region_def
        sample_id sample_vm_id sample_calls example_state_def)

lemma sample_noview: "p_InstanceView (Properties (self (example_state example_instance))) = None"
  by (simp add: example_state_def example_instance_def)

lemma sample_fetched_view:
  "p_InstanceView (Properties (self ((example_state (with_view v i))\<lparr>calls := c\<rparr>))) = v"
  by (simp add: example_state_def with_view_def)

lemma sample_fetched_logs: "logs ((example_state i)\<lparr>calls := c\<rparr>) = []"
  by (simp add: example_state_def)

lemma sample_fetched_name:
  "Name (self ((example_state (with_view v example_instance))\<lparr>calls := c\<rparr>)) = ''vm1''"
  by (simp add: example_state_def with_view_def example_instance_def)

text \<open>
  C2. \<^verbatim>\<open>GetStatus\<close> is a lookup of the raw status in the documented table, applied to
  the instance view that is present on entry or, when none is present, to the view that
  a successful refresh has put into the receiver. A listed status gives its normalized
  state and nothing more: the state (receiver, remote calls, log) stays as it was on
  entry, or as the refresh left it. Any other string gives Unknown and adds exactly one
  line to the log, and nothing else changes.
\<close>

theorem GetStatus_mapping:
  "(\<forall>view. p_InstanceView (Properties (self s)) = Some view \<longrightarrow>
      GetStatus e s =
        (case map_of StatusMapping (iv_Status view) of
           Some normalized \<Rightarrow> (Return normalized, s)
         | None \<Rightarrow>
             (Return VM_UNKNOWN,
              s\<lparr>logs := logs s @ [''Unknow classic instance '' @ Name (self s) @ '' status '' @
                                   iv_Status view]\<rparr>)))
   \<and> (\<forall>s1 view. p_InstanceView (Properties (self s)) = None
                  \<and> Refresh e s = (None, s1)
                  \<and> p_InstanceView (Properties (self s1)) = Some view \<longrightarrow>
         GetStatus e s =
           (case map_of StatusMapping (iv_Status view) of
              Some normalized \<Rightarrow> (Return normalized, s1)
            | None \<Rightarrow>
                (Return VM_UNKNOWN,
                 s1\<lparr>logs := logs s1 @ [''Unknow classic instance '' @ Name (self s1) @
                                        '' status '' @ iv_Status view]\<rparr>)))"
  by (simp add: GetStatus_def GetStatus_switch_def StatusMapping_def log_Errorf_def)

theorem GetStatus_mapping_witness:
  "GetStatus (example_env failing_region)
     (example_state (with_view (Some (example_view ''StoppedDeallocated'')) example_instance))
   = (Return VM_READY,
      example_state (with_view (Some (example_view ''StoppedDeallocated'')) example_instance))
   \<and> GetStatus (example_env failing_region)
       (example_state (with_view (Some (example_view ''ReadyRole'')) example_instance))
     = (Return VM_RUNNING,
        example_state (with_view (Some (example_view ''ReadyRole'')) example_instance))
   \<and> GetStatus (example_env failing_region)
       (example_state (with_view (Some (example_view ''Stopped'')) example_instance))
     = (Return VM_READY,
        example_state (with_view (Some (example_view ''Stopped'')) example_instance))
   \<and> GetStatus (example_env failing_region)
       (example_state (with_view (Some (example_view ''RoleStateUnknown'')) example_instance))
     = (Return VM_UNKNOWN,
        example_state (with_view (Some (example_view ''RoleStateUnknown'')) example_instance))
   \<and> GetStatus (example_env failing_region)
       (example_state (with_view (Some (example_view ''Deleting'')) example_instance))
     = (Return VM_UNKNOWN,
        (example_state (with_view (Some (example_view ''Deleting'')) example_instance))
          \<lparr>logs := [''Unknow classic instance vm1 status Deleting'']\<rparr>)
   \<and> p_InstanceView (Properties (self (example_state example_instance))) = None
   \<and> GetStatus
       (example_env (fetched_region (with_view (Some (example_view ''Stopped'')) example_instance)))
       (example_state example_instance)
     = (Return VM_READY,
        (example_state (with_view (Some (example_view ''Stopped'')) example_instance))
          \<lparr>calls := [Call_get ''/vms/vm1'' [(''$expand'', ''instanceView'')]]\<rparr>)
   \<and> GetStatus
       (example_env (fetched_region (with_view (Some (example_view ''StoppedDeallocated'')) example_instance)))
       (example_state example_instance)
     = (Return VM_READY,
        (example_state (with_view (Some (example_view ''StoppedDeallocated'')) example_instance))
          \<lparr>calls := [Call_get ''/vms/vm1'' [(''$expand'', ''instanceView'')]]\<rparr>)
   \<and> GetStatus
       (example_env (fetched_region (with_view (Some (example_view ''Deleting'')) example_instance)))
       (example_state example_instance)
     = (Return VM_UNKNOWN,
        (example_state (with_view (Some (example_view ''Deleting'')) example_instance))
          \<lparr>calls := [Call_get ''/vms/vm1'' [(''$expand'', ''instanceView'')]],
            logs := [''Unknow classic instance vm1 status Deleting'']\<rparr>)"
proof -
  note present = GetStatus_mapping [THEN conjunct1, THEN spec, THEN mp, OF sample_view]
  note lazy = GetStatus_mapping [THEN conjunct2, THEN spec, THEN spec, THEN mp,
      OF conjI [OF sample_noview conjI [OF sample_refresh_fetched sample_fetched_view]]]
  have a: "GetStatus (example_env failing_region)
     (example_state (with_view (Some (example_view ''StoppedDeallocated'')) example_instance))
   = (Return VM_READY,
      example_state (with_view (Some (example_view ''StoppedDeallocated'')) example_instance))"
    using present by (simp add: sample_status StatusMapping_def)
  have b: "GetStatus (example_env failing_region)
       (example_state (with_view (Some (example_view ''ReadyRole'')) example_instance))
     = (Return VM_RUNNING,
        example_state (with_view (Some (example_view ''ReadyRole'')) example_instance))"
    using present by (simp add: sample_status StatusMapping_def)
  have c: "GetStatus (example_env failing_region)
       (example_state (with_view (Some (example_view ''Stopped'')) example_instance))
     = (Return VM_READY,
        example_state (with_view (Some (example_view ''Stopped'')) example_instance))"
    using present by (simp add: sample_status StatusMapping_def)
  have d: "GetStatus (example_env failing_region)
       (example_state (with_view (Some (example_view ''RoleStateUnknown'')) example_instance))
     = (Return VM_UNKNOWN,
        example_state (with_view (Some (example_view ''RoleStateUnknown'')) example_instance))"
    using present by (simp add: sample_status StatusMapping_def)
  have e: "GetStatus (example_env failing_region)
       (example_state (with_view (Some (example_view ''Deleting'')) example_instance))
     = (Return VM_UNKNOWN,
        (example_state (with_view (Some (example_view ''Deleting'')) example_instance))
          \<lparr>logs := [''Unknow classic instance vm1 status Deleting'']\<rparr>)"
    using present by (simp add: sample_status sample_name sample_logs StatusMapping_def)
  have f: "GetStatus
       (example_env (fetched_region (with_view (Some (example_view ''Stopped'')) example_instance)))
       (example_state example_instance)
     = (Return VM_READY,
        (example_state (with_view (Some (example_view ''Stopped'')) example_instance))
          \<lparr>calls := [Call_get ''/vms/vm1'' [(''$expand'', ''instanceView'')]]\<rparr>)"
    using lazy
    by (simp add: sample_status StatusMapping_def)
  have g: "GetStatus
       (example_env (fetched_region (with_view (Some (example_view ''StoppedDeallocated'')) example_instance)))
       (example_state example_instance)
     = (Return VM_READY,
        (example_state (with_view (Some (example_view ''StoppedDeallocated'')) example_instance))
          \<lparr>calls := [Call_get ''/vms/vm1'' [(''$expand'', ''instanceView'')]]\<rparr>)"
    using lazy
    by (simp add: sample_status StatusMapping_def)
  have h: "GetStatus
       (example_env (fetched_region (with_view (Some (example_view ''Deleting'')) example_instance)))
       (example_state example_instance)
     = (Return VM_UNKNOWN,
        (example_state (with_view (Some (example_view ''Deleting'')) example_instance))
          \<lparr>calls := [Call_get ''/vms/vm1'' [(''$expand'', ''instanceView'')]],
            logs := [''Unknow classic instance vm1 status Deleting'']\<rparr>)"
    using lazy
    by (simp add: sample_status StatusMapping_def sample_fetched_logs sample_fetched_name
          sample_name)
  from a b c d e sample_noview f g h show ?thesis
    by (intro conjI)
qed

text \<open>
  C4. With no instance view, \<^verbatim>\<open>GetStatus\<close> issues exactly one fetch of the instance
  (the refresh) and no other remote call. When the refresh fails it returns Unknown as a
  value and logs one line. When the refresh succeeds and the refreshed view has the raw
  status \<^verbatim>\<open>ReadyRole\<close> it returns Running and logs nothing. With an instance view
  present it issues no remote call and leaves the receiver as it was.
\<close>

theorem GetStatus_lazy_refresh:
  "(p_InstanceView (Properties (self s)) = None \<longrightarrow>
      calls (snd (GetStatus e s)) =
        calls s @ [Call_get (ID (self s)) [(''$expand'', ''instanceView'')]]
      \<and> (\<forall>err. fst (Refresh e s) = Some err \<longrightarrow>
            GetStatus e s =
              (Return VM_UNKNOWN,
               (snd (Refresh e s))
                 \<lparr>logs := logs s @ [''failed to get status for classic instance '' @
                                     Name (self (snd (Refresh e s)))]\<rparr>))
      \<and> (\<forall>view. fst (Refresh e s) = None
                 \<and> p_InstanceView (Properties (self (snd (Refresh e s)))) = Some view
                 \<and> iv_Status view = ''ReadyRole'' \<longrightarrow>
            GetStatus e s = (Return VM_RUNNING, snd (Refresh e s))))
   \<and> (\<forall>view. p_InstanceView (Properties (self s)) = Some view \<longrightarrow>
         calls (snd (GetStatus e s)) = calls s \<and> self (snd (GetStatus e s)) = self s)"
proof (intro conjI impI allI)
  assume none: "p_InstanceView (Properties (self s)) = None"
  obtain r s1 where r: "Refresh e s = (r, s1)"
    by (cases "Refresh e s")
  have c1: "calls s1 = calls s @ [Call_get (ID (self s)) [(''$expand'', ''instanceView'')]]"
    using Refresh_calls [of e s] r by simp
  show "calls (snd (GetStatus e s)) =
          calls s @ [Call_get (ID (self s)) [(''$expand'', ''instanceView'')]]"
    using none r c1 GetStatus_switch_calls [of s1]
    by (cases r) (simp_all add: GetStatus_def log_Errorf_def)
next
  fix err
  assume "p_InstanceView (Properties (self s)) = None" "fst (Refresh e s) = Some err"
  then show "GetStatus e s =
          (Return VM_UNKNOWN,
           (snd (Refresh e s))
             \<lparr>logs := logs s @ [''failed to get status for classic instance '' @
                                 Name (self (snd (Refresh e s)))]\<rparr>)"
    using Refresh_logs [of e s]
    by (cases "Refresh e s") (simp add: GetStatus_def log_Errorf_def)
next
  fix view
  assume "p_InstanceView (Properties (self s)) = None"
    "fst (Refresh e s) = None
     \<and> p_InstanceView (Properties (self (snd (Refresh e s)))) = Some view
     \<and> iv_Status view = ''ReadyRole''"
  then show "GetStatus e s = (Return VM_RUNNING, snd (Refresh e s))"
    by (cases "Refresh e s") (simp add: GetStatus_def GetStatus_switch_def)
next
  fix view
  assume "p_InstanceView (Properties (self s)) = Some view"
  then show "calls (snd (GetStatus e s)) = calls s"
    by (simp add: GetStatus_def GetStatus_switch_calls)
next
  fix view
  assume "p_InstanceView (Properties (self s)) = Some view"
  then show "self (snd (GetStatus e s)) = self s"
    by (simp add: GetStatus_def GetStatus_switch_self)
qed

lemma sample_refresh_fails:
  "Refresh (example_env failing_region) (example_state example_instance) =
     (Some (RemoteFailure ''get''),
      (example_state example_instance)
        \<lparr>calls := [Call_get ''/vms/vm1'' [(''$expand'', ''instanceView'')]]\<rparr>)"
  by (simp add: Refresh_def GetClassicInstance_eq example_env_def failing_region_def
        sample_id sample_vm_id sample_calls)

lemma sample_refresh_succeeds:
  "Refresh (example_env example_region) (example_state example_instance) =
     (None,
      (example_state (with_view (Some (example_view ''ReadyRole'')) example_instance))
        \<lparr>calls := [Call_get ''/vms/vm1'' [(''$expand'', ''instanceView'')]]\<rparr>)"
  by (simp add: Refresh_def GetClassicInstance_eq example_env_def example_region_def
        sample_id sample_vm_id sample_calls example_state_def)

theorem GetStatus_lazy_refresh_witness:
  "p_InstanceView (Properties (self (example_state example_instance))) = None
   \<and> GetStatus (example_env failing_region) (example_state example_instance) =
       (Return VM_UNKNOWN,
        (example_state example_instance)
          \<lparr>calls := [Call_get ''/vms/vm1'' [(''$expand'', ''instanceView'')]],
            logs := [''failed to get status for classic instance vm1'']\<rparr>)
   \<and> GetStatus (example_env example_region) (example_state example_instance) =
       (Return VM_RUNNING,
        (example_state (with_view (Some (example_view ''ReadyRole'')) example_instance))
          \<lparr>calls := [Call_get ''/vms/vm1'' [(''$expand'', ''instanceView'')]]\<rparr>)
   \<and> calls (snd (GetStatus (example_env failing_region)
          (example_state (with_view (Some (example_view ''Stopped'')) example_instance)))) = []"
proof -
  have a: "GetStatus (example_env failing_region) (example_state example_instance) =
       (Return VM_UNKNOWN,
        (example_state example_instance)
          \<lparr>calls := [Call_get ''/vms/vm1'' [(''$expand'', ''instanceView'')]],
            logs := [''failed to get status for classic instance vm1'']\<rparr>)"
    using GetStatus_lazy_refresh [of "example_state example_instance" "example_env failing_region"]
      sample_noview sample_refresh_fails
    by (simp add: sample_logs example_state_def example_instance_def)
  have b: "GetStatus (example_env example_region) (example_state example_instance) =
       (Return VM_RUNNING,
        (example_state (with_view (Some (example_view ''ReadyRole'')) example_instance))
          \<lparr>calls := [Call_get ''/vms/vm1'' [(''$expand'', ''instanceView'')]]\<rparr>)"
    using GetStatus_lazy_refresh [of "example_state example_instance" "example_env example_region"]
      sample_noview sample_refresh_succeeds
    by (simp add: with_view_view sample_status example_state_def)
  have c: "calls (snd (GetStatus (example_env failing_region)
          (example_state (with_view (Some (example_view ''Stopped'')) example_instance)))) = []"
    using GetStatus_lazy_refresh [of
        "example_state (with_view (Some (example_view ''Stopped'')) example_instance)"
        "example_env failing_region"]
    by (simp add: sample_view sample_calls)
  from sample_noview a b c show ?thesis
    by (intro conjI)
qed

subsection \<open>Lifecycle operations\<close>

lemma sample_status_stopped:
  "GetStatus (example_env r)
     (example_state (with_view (Some (example_view ''Stopped'')) example_instance))
   = (Return VM_READY,
      example_state (with_view (Some (example_view ''Stopped'')) example_instance))"
  by (simp add: GetStatus_def GetStatus_switch_def sample_view sample_status)

lemma with_view_id: "ID (with_view v i) = ID i"
  by (simp add: with_view_def)

lemma sample_region: "region (example_env r) = r"
  by (simp add: example_env_def)

lemma sample_wait: "WaitStatus (example_env r) s expect interval timeout = (Return None, s)"
  by (simp add: example_env_def)

lemma sample_fetched_noview:
  "p_InstanceView (Properties (self ((example_state example_instance)\<lparr>calls := c\<rparr>))) = None"
  by (simp add: example_state_def example_instance_def)

lemma sample_status_panics:
  "GetStatus (example_env (fetched_region example_instance)) (example_state example_instance)
   = (Panic,
      (example_state example_instance)
        \<lparr>calls := [Call_get ''/vms/vm1'' [(''$expand'', ''instanceView'')]]\<rparr>)"
  by (simp add: GetStatus_def GetStatus_switch_def sample_noview sample_refresh_fetched
        sample_fetched_noview)

text \<open>
  C5, as the claim states it, fails: stop called with a nil options pointer panics
  before any remote call, and attach-disk panics after the fetch of the status read
  (the refresh succeeds but the fetched record has no instance view), before the attach
  action. In both cases the triggering action is issued zero times and nothing is
  waited for.
\<close>

theorem lifecycle_stops_before_action:
  "StopVM (example_env example_region) None (example_state example_instance)
   = (Panic, example_state example_instance)
   \<and> calls (example_state example_instance) = []
   \<and> AttachDisk (example_env (fetched_region example_instance)) ''/disks/data1''
       (example_state example_instance)
     = (Panic,
        (example_state example_instance)
          \<lparr>calls := [Call_get ''/vms/vm1'' [(''$expand'', ''instanceView'')]]\<rparr>)"
  by (simp add: StopVM_def AttachDisk_def sample_status_panics sample_calls)

text \<open>
  C5, amended. Start issues its action once and hands over to \<^verbatim>\<open>WaitStatus\<close> with the
  expected status Running, an interval of 10 seconds and a timeout of 300 seconds. Stop,
  called with a non-nil options pointer, does the same with the expected status Ready.
  Attach and detach first read the status; when that read returns a status they issue
  their action once and wait for that status with the same interval and timeout. When
  the action fails its error is returned with that one call issued and \<^verbatim>\<open>WaitStatus\<close>
  not consulted. With a nil options pointer stop panics with the state untouched, and
  when the status read panics attach and detach panic in the state the read left, so no
  action is issued in these cases.
\<close>

theorem lifecycle_trigger_then_wait:
  "StartVM e s =
     (case r_StartVM (region e) (calls s) (ID (self s)) of
        Some err \<Rightarrow> (Return (Some err), s\<lparr>calls := calls s @ [Call_StartVM (ID (self s))]\<rparr>)
      | None \<Rightarrow>
          WaitStatus e (s\<lparr>calls := calls s @ [Call_StartVM (ID (self s))]\<rparr>) VM_RUNNING
            (10 * Second) (300 * Second))
   \<and> StopVM e (Some opt) s =
     (case r_perform (region e) (calls s) (ID (self s)) ''shutdown'' of
        Some err \<Rightarrow>
          (Return (Some err), s\<lparr>calls := calls s @ [Call_perform (ID (self s)) ''shutdown'']\<rparr>)
      | None \<Rightarrow>
          WaitStatus e (s\<lparr>calls := calls s @ [Call_perform (ID (self s)) ''shutdown'']\<rparr>) VM_READY
            (10 * Second) (300 * Second))
   \<and> (\<forall>status s1. GetStatus e s = (Return status, s1) \<longrightarrow>
         AttachDisk e diskId s =
           (case r_AttachDisk (region e) (calls s1) (ID (self s1)) diskId of
              Some err \<Rightarrow>
                (Return (Some err),
                 s1\<lparr>calls := calls s1 @ [Call_AttachDisk (ID (self s1)) diskId]\<rparr>)
            | None \<Rightarrow>
                WaitStatus e (s1\<lparr>calls := calls s1 @ [Call_AttachDisk (ID (self s1)) diskId]\<rparr>)
                  status (10 * Second) (300 * Second))
         \<and> DetachDisk e diskId s =
           (case r_DetachDisk (region e) (calls s1) (ID (self s1)) diskId of
              Some err \<Rightarrow>
                (Return (Some err),
                 s1\<lparr>calls := calls s1 @ [Call_DetachDisk (ID (self s1)) diskId]\<rparr>)
            | None \<Rightarrow>
                WaitStatus e (s1\<lparr>calls := calls s1 @ [Call_DetachDisk (ID (self s1)) diskId]\<rparr>)
                  status (10 * Second) (300 * Second)))
   \<and> 10 * Second = 10000000000 \<and> 300 * Second = 300000000000
   \<and> StopVM e None s = (Panic, s)
   \<and> (\<forall>s1. GetStatus e s = (Panic, s1) \<longrightarrow>
         AttachDisk e diskId s = (Panic, s1) \<and> DetachDisk e diskId s = (Panic, s1))"
  by (simp add: StartVM_def StopVM_def StopClassicVM_def AttachDisk_def DetachDisk_def
        remote_def Second_def split: option.splits)


theorem lifecycle_trigger_then_wait_witness:
  "GetStatus (example_env example_region)
     (example_state (with_view (Some (example_view ''Stopped'')) example_instance))
   = (Return VM_READY,
      example_state (with_view (Some (example_view ''Stopped'')) example_instance))
   \<and> AttachDisk (example_env example_region) ''/disks/data1''
       (example_state (with_view (Some (example_view ''Stopped'')) example_instance))
     = (Return None,
        (example_state (with_view (Some (example_view ''Stopped'')) example_instance))
          \<lparr>calls := [Call_AttachDisk ''/vms/vm1'' ''/disks/data1'']\<rparr>)
   \<and> DetachDisk (example_env failing_region) ''/disks/data1''
       (example_state (with_view (Some (example_view ''Stopped'')) example_instance))
     = (Return (Some (RemoteFailure ''detach'')),
        (example_state (with_view (Some (example_view ''Stopped'')) example_instance))
          \<lparr>calls := [Call_DetachDisk ''/vms/vm1'' ''/disks/data1'']\<rparr>)
   \<and> StartVM (example_env failing_region) (example_state example_instance)
     = (Return (Some (RemoteFailure ''start'')),
        (example_state example_instance)\<lparr>calls := [Call_StartVM ''/vms/vm1'']\<rparr>)
   \<and> StopVM (example_env example_region) (Some \<lparr>IsForce = True\<rparr>) (example_state example_instance)
     = (Return None,
        (example_state example_instance)\<lparr>calls := [Call_perform ''/vms/vm1'' ''shutdown'']\<rparr>)
   \<and> DetachDisk (example_env (fetched_region example_instance)) ''/disks/data1''
       (example_state example_instance)
     = (Panic,
        (example_state example_instance)
          \<lparr>calls := [Call_get ''/vms/vm1'' [(''$expand'', ''instanceView'')]]\<rparr>)"
proof -
  let ?stopped = "example_state (with_view (Some (example_view ''Stopped'')) example_instance)"
  have a: "AttachDisk (example_env example_region) ''/disks/data1'' ?stopped
     = (Return None, ?stopped\<lparr>calls := [Call_AttachDisk ''/vms/vm1'' ''/disks/data1'']\<rparr>)"
    using lifecycle_trigger_then_wait [of "example_env example_region" ?stopped _ "''/disks/data1''"]
      sample_status_stopped [of example_region]
    by (simp add: sample_region sample_wait sample_id with_view_id sample_vm_id sample_calls
          example_region_def)
  have d: "DetachDisk (example_env failing_region) ''/disks/data1'' ?stopped
     = (Return (Some (RemoteFailure ''detach'')),
        ?stopped\<lparr>calls := [Call_DetachDisk ''/vms/vm1'' ''/disks/data1'']\<rparr>)"
    using lifecycle_trigger_then_wait [of "example_env failing_region" ?stopped _ "''/disks/data1''"]
      sample_status_stopped [of failing_region]
    by (simp add: sample_region sample_wait sample_id with_view_id sample_vm_id sample_calls
          failing_region_def)
  have s: "StartVM (example_env failing_region) (example_state example_instance)
     = (Return (Some (RemoteFailure ''start'')),
        (example_state example_instance)\<lparr>calls := [Call_StartVM ''/vms/vm1'']\<rparr>)"
    using lifecycle_trigger_then_wait [of "example_env failing_region" "example_state example_instance"]
    by (simp add: sample_region sample_id sample_vm_id sample_calls failing_region_def)
  have t: "StopVM (example_env example_region) (Some \<lparr>IsForce = True\<rparr>)
             (example_state example_instance)
     = (Return None,
        (example_state example_instance)\<lparr>calls := [Call_perform ''/vms/vm1'' ''shutdown'']\<rparr>)"
    using lifecycle_trigger_then_wait [of "example_env example_region" "example_state example_instance"
        "\<lparr>IsForce = True\<rparr>"]
    by (simp add: sample_region sample_wait sample_id sample_vm_id sample_calls example_region_def)
  have p: "DetachDisk (example_env (fetched_region example_instance)) ''/disks/data1''
       (example_state example_instance)
     = (Panic,
        (example_state example_instance)
          \<lparr>calls := [Call_get ''/vms/vm1'' [(''$expand'', ''instanceView'')]]\<rparr>)"
    using lifecycle_trigger_then_wait [of "example_env (fetched_region example_instance)"
        "example_state example_instance" _ "''/disks/data1''"]
      sample_status_panics
    by simp
  from sample_status_stopped [of example_region] a d s t p show ?thesis
    by (intro conjI)
qed

subsection \<open>Unsupported operations, sizes, security group\<close>

text \<open>
  C7. Console access, billing renewal, user-data update and set-security-groups return
  \<^verbatim>\<open>ErrNotSupported\<close> for every argument and every state, and leave the state as it
  was: no remote call is issued and nothing is logged.
\<close>

theorem unsupported_operations:
  "GetVNCInfo input s = (Inl ErrNotSupported, s)
   \<and> Renew bc s = (Some ErrNotSupported, s)
   \<and> UpdateUserData userData s = (Some ErrNotSupported, s)
   \<and> SetSecurityGroups secgroupIds s = (Some ErrNotSupported, s)"
  by (simp add: GetVNCInfo_def Renew_def UpdateUserData_def SetSecurityGroups_def)

text \<open>
  C9. When the size of the hardware profile is not a key of \<^verbatim>\<open>CLASSIC_VM_SIZES\<close>,
  \<^verbatim>\<open>GetVcpuCount\<close> and \<^verbatim>\<open>GetVmemSizeMB\<close> each log one line naming the size and return
  0. Both are total: they return a number for every size string.
\<close>

theorem unknown_size_is_zero:
  assumes "CLASSIC_VM_SIZES e (hp_Size (p_HardwareProfile (Properties (self s)))) = None"
  shows "GetVcpuCount e s =
           (0, s\<lparr>logs := logs s @ [''failed to find classic VMSize for '' @
                                    hp_Size (p_HardwareProfile (Properties (self s)))]\<rparr>)
         \<and> GetVmemSizeMB e s =
           (0, s\<lparr>logs := logs s @ [''failed to find classic VMSize for '' @
                                    hp_Size (p_HardwareProfile (Properties (self s)))]\<rparr>)"
  using assms by (simp add: GetVcpuCount_def GetVmemSizeMB_def log_Errorf_def)

lemma sample_size: "hp_Size (p_HardwareProfile (Properties (self (example_state example_instance)))) = ''Huge''"
  by (simp add: example_state_def example_instance_def)

lemma sample_size_unknown:
  "CLASSIC_VM_SIZES (example_env r)
     (hp_Size (p_HardwareProfile (Properties (self (example_state example_instance))))) = None"
  by (simp add: sample_size example_env_def)

theorem unknown_size_is_zero_witness:
  "CLASSIC_VM_SIZES (example_env example_region)
     (hp_Size (p_HardwareProfile (Properties (self (example_state example_instance))))) = None
   \<and> GetVcpuCount (example_env example_region) (example_state example_instance) =
       (0, (example_state example_instance)\<lparr>logs := [''failed to find classic VMSize for Huge'']\<rparr>)
   \<and> GetVmemSizeMB (example_env example_region) (example_state example_instance) =
       (0, (example_state example_instance)\<lparr>logs := [''failed to find classic VMSize for Huge'']\<rparr>)"
  using unknown_size_is_zero [OF sample_size_unknown [of example_region]]
    sample_size_unknown [of example_region]
  by (simp add: sample_size sample_logs)

text \<open>
  C10. When the network profile already references a security group whose ID is the
  requested one, \<^verbatim>\<open>AssignSecurityGroup\<close> returns success and leaves the state as it was:
  no remote call, no log line, the receiver unchanged.
\<close>

theorem AssignSecurityGroup_same_group:
  assumes "np_NetworkSecurityGroup (p_NetworkProfile (Properties (self s))) = Some nsg"
    and "sr_ID nsg = secgroupId"
  shows "AssignSecurityGroup e secgroupId s = (None, s)"
  using assms by (simp add: AssignSecurityGroup_def)

lemma sample_nsg:
  "np_NetworkSecurityGroup (p_NetworkProfile (Properties (self (example_state example_instance))))
   = Some \<lparr>sr_ID = ''/nsgs/g1'', sr_Name = ''g1'', sr_Type = ''nsg''\<rparr>"
  by (simp add: example_state_def example_instance_def)

theorem AssignSecurityGroup_same_group_witness:
  "np_NetworkSecurityGroup (p_NetworkProfile (Properties (self (example_state example_instance))))
   = Some \<lparr>sr_ID = ''/nsgs/g1'', sr_Name = ''g1'', sr_Type = ''nsg''\<rparr>
   \<and> AssignSecurityGroup (example_env failing_region) ''/nsgs/g1'' (example_state example_instance)
     = (None, example_state example_instance)"
  using AssignSecurityGroup_same_group [OF sample_nsg, of "''/nsgs/g1''" "example_env failing_region"]
    sample_nsg
  by simp

subsection \<open>External address\<close>

lemma sample_self: "self (example_state i) = i"
  by (simp add: example_state_def)

lemma sample_candidates: "reserved_candidates (example_state (with_reserved (Some cs) i)) = cs"
  by (simp add: reserved_candidates_def example_state_def with_reserved_def)

lemma sample_reserved:
  "np_ReservedIps (p_NetworkProfile (Properties (with_reserved r i))) = r"
  by (simp add: with_reserved_def)

lemma sample_no_candidates: "reserved_candidates (example_state (with_reserved None i)) = []"
  by (simp add: reserved_candidates_def example_state_def with_reserved_def)

lemma with_reserved_id: "ID (with_reserved r i) = ID i"
  by (simp add: with_reserved_def)

lemma with_reserved_name: "Name (with_reserved r i) = Name i"
  by (simp add: with_reserved_def)

lemma with_view_name: "Name (with_view v i) = Name i"
  by (simp add: with_view_def)

lemma sample_vm_name: "Name example_instance = ''vm1''"
  by (simp add: example_instance_def)

lemma sample_fallback:
  "public_fallback (with_reserved r (with_view (Some (example_view raw)) example_instance))
   = Some \<lparr>eip_ID = ''/vms/vm1'', eip_instanceId = ''/vms/vm1'', eip_Name = ''52.0.0.9'',
           eip_Properties = \<lparr>eip_IpAddress = ''52.0.0.9'', eip_AttachedTo = None\<rparr>\<rparr>"
  by (simp add: public_fallback_def with_reserved_def with_view_def example_view_def
        example_instance_def)

lemma sample_no_fallback: "public_fallback (with_reserved r example_instance) = None"
  by (simp add: public_fallback_def with_reserved_def example_instance_def)

lemma sample_eip_down: "r_GetClassicEip reserved_region h ''/rips/down'' = Inl (RemoteFailure ''eip'')"
  by (simp add: reserved_region_def)

lemma sample_eip_moved:
  "r_GetClassicEip reserved_region h ''/rips/moved'' =
     Inr (example_eip ''/rips/moved''
            (Some \<lparr>sr_ID = ''/vms/other'', sr_Name = ''other'', sr_Type = ''vm''\<rparr>))"
  by (simp add: reserved_region_def)

lemma sample_eip_free:
  "r_GetClassicEip reserved_region h ''/rips/free'' = Inr (example_eip ''/rips/free'' None)"
  by (simp add: reserved_region_def)

lemma sample_moved_elsewhere:
  "attached_elsewhere ''/vms/vm1''
     (example_eip i (Some \<lparr>sr_ID = ''/vms/other'', sr_Name = ''other'', sr_Type = ''vm''\<rparr>))"
  by (simp add: attached_elsewhere_def example_eip_def)

lemma sample_free_here: "\<not> attached_elsewhere j (example_eip i None)"
  by (simp add: attached_elsewhere_def example_eip_def)

lemma sample_rip: "sr_ID (rip n) = ''/rips/'' @ n" "sr_Name (rip n) = n"
  by (simp_all add: rip_def)

text \<open>
  C3, as the claim states it, fails: the first reserved IP is attached to another
  machine, the second one is attached to nothing and the instance view lists public
  IPs, yet the resolver answers "none" after the first fetch and never fetches the
  second candidate.
\<close>

theorem GetIEIP_reassigned_not_skipped:
  "GetIEIP (example_env reserved_region)
     (example_state (with_reserved (Some [rip ''moved'', rip ''free''])
        (with_view (Some (example_view ''ReadyRole'')) example_instance)))
   = (Inr None,
      (example_state (with_reserved (Some [rip ''moved'', rip ''free''])
         (with_view (Some (example_view ''ReadyRole'')) example_instance)))
        \<lparr>calls := [Call_GetClassicEip ''/rips/moved'']\<rparr>)
   \<and> r_GetClassicEip (region (example_env reserved_region)) [Call_GetClassicEip ''/rips/moved'']
       (sr_ID (rip ''free'')) = Inr (example_eip ''/rips/free'' None)
   \<and> public_fallback (with_reserved (Some [rip ''moved'', rip ''free''])
        (with_view (Some (example_view ''ReadyRole'')) example_instance))
     = Some \<lparr>eip_ID = ''/vms/vm1'', eip_instanceId = ''/vms/vm1'', eip_Name = ''52.0.0.9'',
             eip_Properties = \<lparr>eip_IpAddress = ''52.0.0.9'', eip_AttachedTo = None\<rparr>\<rparr>"
  by (simp add: GetIEIP_scan sample_candidates sample_region sample_eip_moved sample_eip_free
        sample_self sample_calls sample_logs with_reserved_id with_view_id sample_vm_id
        sample_moved_elsewhere sample_fallback sample_rip)

text \<open>
  C3, amended. The reserved IPs are fetched in list order and a candidate whose fetch
  fails is passed over. The first candidate whose fetch succeeds decides: when its
  attachment is absent or names this instance it is returned (with the instance id
  set), and when its attachment names another instance the result is "none" at once;
  no further candidate is fetched in either case. Only when no fetch succeeds is the
  address synthesized from the first public IP of the instance view, and "none" when
  there is no view or no public IP. The result is never an error.
\<close>

theorem GetIEIP_result:
  "fst (GetIEIP e s) =
     Inr (case first_fetched e (calls s) (reserved_candidates s) of
            Some eip \<Rightarrow>
              if attached_elsewhere (ID (self s)) eip then None
              else Some (eip\<lparr>eip_instanceId := ID (self s)\<rparr>)
          | None \<Rightarrow> public_fallback (self s))
   \<and> calls (snd (GetIEIP e s)) =
       calls s @ map (\<lambda>c. Call_GetClassicEip (sr_ID c))
                   (take (Suc (length (failed_before e (calls s) (reserved_candidates s))))
                      (reserved_candidates s))
   \<and> (\<forall>c cs eip attached.
         np_ReservedIps (p_NetworkProfile (Properties (self s))) = Some (c # cs)
         \<and> r_GetClassicEip (region e) (calls s) (sr_ID c) = Inr eip
         \<and> eip_AttachedTo (eip_Properties eip) = Some attached
         \<and> sr_ID attached \<noteq> ID (self s) \<longrightarrow>
         GetIEIP e s = (Inr None, s\<lparr>calls := calls s @ [Call_GetClassicEip (sr_ID c)]\<rparr>))
   \<and> (\<forall>c cs eip.
         np_ReservedIps (p_NetworkProfile (Properties (self s))) = Some (c # cs)
         \<and> r_GetClassicEip (region e) (calls s) (sr_ID c) = Inr eip
         \<and> eip_AttachedTo (eip_Properties eip) = None \<longrightarrow>
         GetIEIP e s =
           (Inr (Some (eip\<lparr>eip_instanceId := ID (self s)\<rparr>)),
            s\<lparr>calls := calls s @ [Call_GetClassicEip (sr_ID c)]\<rparr>))"
  apply (intro conjI allI impI)
  subgoal by (simp add: GetIEIP_scan)
  subgoal by (simp add: GetIEIP_scan)
  subgoal by (simp add: GetIEIP_scan reserved_candidates_def attached_elsewhere_def)
  subgoal by (simp add: GetIEIP_scan reserved_candidates_def attached_elsewhere_def)
  done

theorem GetIEIP_result_witness:
  "fst (GetIEIP (example_env reserved_region)
          (example_state (with_reserved (Some [rip ''down'', rip ''free'', rip ''moved''])
             example_instance)))
   = Inr (Some ((example_eip ''/rips/free'' None)\<lparr>eip_instanceId := ''/vms/vm1''\<rparr>))
   \<and> calls (snd (GetIEIP (example_env reserved_region)
          (example_state (with_reserved (Some [rip ''down'', rip ''free'', rip ''moved''])
             example_instance))))
     = [Call_GetClassicEip ''/rips/down'', Call_GetClassicEip ''/rips/free'']
   \<and> fst (GetIEIP (example_env reserved_region)
          (example_state (with_reserved (Some [rip ''down''])
             (with_view (Some (example_view ''ReadyRole'')) example_instance))))
     = Inr (Some \<lparr>eip_ID = ''/vms/vm1'', eip_instanceId = ''/vms/vm1'', eip_Name = ''52.0.0.9'',
             eip_Properties = \<lparr>eip_IpAddress = ''52.0.0.9'', eip_AttachedTo = None\<rparr>\<rparr>)
   \<and> fst (GetIEIP (example_env reserved_region)
          (example_state (with_reserved None example_instance)))
     = Inr None
   \<and> GetIEIP (example_env reserved_region)
       (example_state (with_reserved (Some [rip ''moved'', rip ''free'']) example_instance))
     = (Inr None,
        (example_state (with_reserved (Some [rip ''moved'', rip ''free'']) example_instance))
          \<lparr>calls := [Call_GetClassicEip ''/rips/moved'']\<rparr>)
   \<and> GetIEIP (example_env reserved_region)
       (example_state (with_reserved (Some [rip ''free'', rip ''moved'']) example_instance))
     = (Inr (Some ((example_eip ''/rips/free'' None)\<lparr>eip_instanceId := ''/vms/vm1''\<rparr>)),
        (example_state (with_reserved (Some [rip ''free'', rip ''moved'']) example_instance))
          \<lparr>calls := [Call_GetClassicEip ''/rips/free'']\<rparr>)"
proof -
  note samples = sample_candidates sample_region sample_eip_down sample_eip_moved sample_eip_free
    sample_self sample_calls with_reserved_id with_view_id sample_vm_id sample_moved_elsewhere
    sample_free_here sample_fallback sample_no_fallback sample_rip
  have a: "fst (GetIEIP (example_env reserved_region)
          (example_state (with_reserved (Some [rip ''down'', rip ''free'', rip ''moved''])
             example_instance)))
   = Inr (Some ((example_eip ''/rips/free'' None)\<lparr>eip_instanceId := ''/vms/vm1''\<rparr>))
   \<and> calls (snd (GetIEIP (example_env reserved_region)
          (example_state (with_reserved (Some [rip ''down'', rip ''free'', rip ''moved''])
             example_instance))))
     = [Call_GetClassicEip ''/rips/down'', Call_GetClassicEip ''/rips/free'']"
    using GetIEIP_result [of "example_env reserved_region"
        "example_state (with_reserved (Some [rip ''down'', rip ''free'', rip ''moved'']) example_instance)"]
    by (simp add: samples)
  have b: "fst (GetIEIP (example_env reserved_region)
          (example_state (with_reserved (Some [rip ''down''])
             (with_view (Some (example_view ''ReadyRole'')) example_instance))))
     = Inr (Some \<lparr>eip_ID = ''/vms/vm1'', eip_instanceId = ''/vms/vm1'', eip_Name = ''52.0.0.9'',
             eip_Properties = \<lparr>eip_IpAddress = ''52.0.0.9'', eip_AttachedTo = None\<rparr>\<rparr>)"
    using GetIEIP_result [of "example_env reserved_region"
        "example_state (with_reserved (Some [rip ''down''])
           (with_view (Some (example_view ''ReadyRole'')) example_instance))"]
    by (simp add: samples)
  have c: "fst (GetIEIP (example_env reserved_region)
          (example_state (with_reserved None example_instance)))
     = Inr None"
    using GetIEIP_result [of "example_env reserved_region"
        "example_state (with_reserved None example_instance)"]
    by (simp add: samples sample_no_candidates)
  have d: "GetIEIP (example_env reserved_region)
       (example_state (with_reserved (Some [rip ''moved'', rip ''free'']) example_instance))
     = (Inr None,
        (example_state (with_reserved (Some [rip ''moved'', rip ''free'']) example_instance))
          \<lparr>calls := [Call_GetClassicEip ''/rips/moved'']\<rparr>)"
    using GetIEIP_result [of "example_env reserved_region"
        "example_state (with_reserved (Some [rip ''moved'', rip ''free'']) example_instance)"]
    by (simp add: samples sample_reserved example_eip_def)
  have e: "GetIEIP (example_env reserved_region)
       (example_state (with_reserved (Some [rip ''free'', rip ''moved'']) example_instance))
     = (Inr (Some ((example_eip ''/rips/free'' None)\<lparr>eip_instanceId := ''/vms/vm1''\<rparr>)),
        (example_state (with_reserved (Some [rip ''free'', rip ''moved'']) example_instance))
          \<lparr>calls := [Call_GetClassicEip ''/rips/free'']\<rparr>)"
    using GetIEIP_result [of "example_env reserved_region"
        "example_state (with_reserved (Some [rip ''free'', rip ''moved'']) example_instance)"]
    by (simp add: samples sample_reserved example_eip_def)
  from a b c d e show ?thesis
    by (intro conjI) simp_all
qed

text \<open>
  C8, as the claim states it, fails in its middle part: the first reserved IP cannot be
  fetched (that failure is logged and passed over), the second one is attached to
  another machine, and the resolver answers "none" although the public IPs of the
  instance view were never consulted.
\<close>

theorem GetIEIP_none_without_exhaustion:
  "GetIEIP (example_env reserved_region)
     (example_state (with_reserved (Some [rip ''down'', rip ''moved''])
        (with_view (Some (example_view ''ReadyRole'')) example_instance)))
   = (Inr None,
      (example_state (with_reserved (Some [rip ''down'', rip ''moved''])
         (with_view (Some (example_view ''ReadyRole'')) example_instance)))
        \<lparr>calls := [Call_GetClassicEip ''/rips/down'', Call_GetClassicEip ''/rips/moved''],
          logs := [''failed find eip down for classic instance vm1'']\<rparr>)
   \<and> public_fallback (with_reserved (Some [rip ''down'', rip ''moved''])
        (with_view (Some (example_view ''ReadyRole'')) example_instance))
     = Some \<lparr>eip_ID = ''/vms/vm1'', eip_instanceId = ''/vms/vm1'', eip_Name = ''52.0.0.9'',
             eip_Properties = \<lparr>eip_IpAddress = ''52.0.0.9'', eip_AttachedTo = None\<rparr>\<rparr>"
  by (simp add: GetIEIP_scan sample_candidates sample_region sample_eip_down sample_eip_moved
        sample_self sample_calls sample_logs with_reserved_id with_view_id sample_vm_id
        with_reserved_name with_view_name sample_vm_name eip_log_def
        sample_moved_elsewhere sample_fallback sample_rip)

text \<open>
  C8, amended. A reserved IP whose fetch fails is logged and the loop goes on with the
  next candidate; the resolver never returns an error, and its log grows by one line
  for each candidate that failed before the first successful fetch. The result is
  "none" exactly when either no candidate could be fetched and the instance view offers
  no public IP, or the first candidate that could be fetched is attached to another
  instance.
\<close>

theorem GetIEIP_lookup_failures:
  "(\<forall>c cs err. r_GetClassicEip (region e) (calls s) (sr_ID c) = Inl err \<longrightarrow>
      GetIEIP_loop e (c # cs) s =
        GetIEIP_loop e cs
          (s\<lparr>calls := calls s @ [Call_GetClassicEip (sr_ID c)],
             logs := logs s @ [eip_log s c]\<rparr>))
   \<and> (\<exists>r. fst (GetIEIP e s) = Inr r)
   \<and> logs (snd (GetIEIP e s)) =
       logs s @ map (eip_log s) (failed_before e (calls s) (reserved_candidates s))
   \<and> (fst (GetIEIP e s) = Inr None) =
       (first_fetched e (calls s) (reserved_candidates s) = None \<and> public_fallback (self s) = None
        \<or> (\<exists>eip. first_fetched e (calls s) (reserved_candidates s) = Some eip
                  \<and> attached_elsewhere (ID (self s)) eip))"
  apply (intro conjI allI impI)
  subgoal by (simp add: remote_def log_Errorf_def eip_log_def)
  subgoal by (simp add: GetIEIP_scan)
  subgoal by (simp add: GetIEIP_scan)
  subgoal by (simp add: GetIEIP_scan split: option.splits)
  done

theorem GetIEIP_lookup_failures_witness:
  "r_GetClassicEip (region (example_env reserved_region))
     (calls (example_state (with_reserved (Some [rip ''down'', rip ''free'']) example_instance)))
     (sr_ID (rip ''down'')) = Inl (RemoteFailure ''eip'')
   \<and> logs (snd (GetIEIP (example_env reserved_region)
        (example_state (with_reserved (Some [rip ''down'', rip ''free'']) example_instance))))
     = [''failed find eip down for classic instance vm1'']
   \<and> fst (GetIEIP (example_env reserved_region)
        (example_state (with_reserved (Some [rip ''down'']) example_instance)))
     = Inr None"
proof -
  note samples = sample_candidates sample_region sample_eip_down sample_eip_free
    sample_self sample_calls sample_logs with_reserved_id with_reserved_name sample_vm_id
    sample_vm_name sample_free_here sample_no_fallback sample_rip eip_log_def
  have a: "logs (snd (GetIEIP (example_env reserved_region)
        (example_state (with_reserved (Some [rip ''down'', rip ''free'']) example_instance))))
     = [''failed find eip down for classic instance vm1'']"
    using GetIEIP_lookup_failures [of "example_env reserved_region"
        "example_state (with_reserved (Some [rip ''down'', rip ''free'']) example_instance)"]
    by (simp add: samples)
  have b: "fst (GetIEIP (example_env reserved_region)
        (example_state (with_reserved (Some [rip ''down'']) example_instance)))
     = Inr None"
    using GetIEIP_lookup_failures [of "example_env reserved_region"
        "example_state (with_reserved (Some [rip ''down'']) example_instance)"]
    by (simp add: samples)
  have c: "r_GetClassicEip (region (example_env reserved_region))
     (calls (example_state (with_reserved (Some [rip ''down'', rip ''free'']) example_instance)))
     (sr_ID (rip ''down'')) = Inl (RemoteFailure ''eip'')"
    by (simp add: sample_region sample_eip_down sample_rip)
  from c a b show ?thesis
    by (intro conjI)
qed

subsection \<open>Remote errors\<close>

lemma sample_domain:
  "p_DomainName (Properties example_instance)
   = Some \<lparr>sr_ID = ''/domains/d1'', sr_Name = ''d1'', sr_Type = ''domain''\<rparr>"
  by (simp add: example_instance_def)

lemma sample_vm_nsg:
  "np_NetworkSecurityGroup (p_NetworkProfile (Properties example_instance))
   = Some \<lparr>sr_ID = ''/nsgs/g1'', sr_Name = ''g1'', sr_Type = ''nsg''\<rparr>"
  by (simp add: example_instance_def)

text \<open>
  C6, as the claim states it, fails: the deletion of the virtual machine succeeds, both
  later deletions (of the security group and of the domain name) are answered with an
  error, and \<^verbatim>\<open>DeleteVM\<close> returns success.
\<close>

theorem DeleteVM_swallows_del_error:
  "DeleteVM (example_env del_failing_region) (example_state example_instance)
   = (None,
      (example_state example_instance)
        \<lparr>calls := [Call_DeleteVM ''/vms/vm1'', Call_del ''/nsgs/g1'', Call_del ''/domains/d1'']\<rparr>)
   \<and> r_del (region (example_env del_failing_region)) [Call_DeleteVM ''/vms/vm1''] ''/nsgs/g1''
     = Some (RemoteFailure ''del'')
   \<and> r_del (region (example_env del_failing_region))
       [Call_DeleteVM ''/vms/vm1'', Call_del ''/nsgs/g1''] ''/domains/d1''
     = Some (RemoteFailure ''del'')"
  by (simp add: DeleteVM_def remote_def sample_region sample_self sample_calls sample_vm_id
        sample_domain sample_vm_nsg del_failing_region_def example_region_def)

text \<open>
  C6, amended. The error of a failing primary remote call is what the operation
  returns, unchanged: the fetch of the instance in \<^verbatim>\<open>getNics\<close>, \<^verbatim>\<open>GetINics\<close> and
  \<^verbatim>\<open>Refresh\<close>, the listing in \<^verbatim>\<open>GetClassicInstances\<close>, the action in \<^verbatim>\<open>StartVM\<close>,
  \<^verbatim>\<open>StopVM\<close>, \<^verbatim>\<open>AttachDisk\<close> and \<^verbatim>\<open>DetachDisk\<close>, the deletion of the virtual machine
  in \<^verbatim>\<open>DeleteVM\<close>, the lookup of the security group and the update in
  \<^verbatim>\<open>AssignSecurityGroup\<close>; \<^verbatim>\<open>GetIDisks\<close> returns it wrapped with the names of the two
  operations. Remote errors are not returned in these places: a failed refresh inside
  \<^verbatim>\<open>GetStatus\<close> gives Unknown, \<^verbatim>\<open>GetIEIP\<close> never returns an error, and the results of
  the deletions that follow the deletion of the virtual machine in \<^verbatim>\<open>DeleteVM\<close> and of
  the deletion of the old association in \<^verbatim>\<open>AssignSecurityGroup\<close> are dropped, so that
  \<^verbatim>\<open>DeleteVM\<close> returns success whenever the deletion of the virtual machine succeeded
  (having issued the deletions of the security group and of the domain name that the
  record names), and \<^verbatim>\<open>AssignSecurityGroup\<close>, replacing an attached group, returns
  what the lookup and the update answer, whatever the deletion of the old association
  answered.
\<close>

theorem remote_errors_returned:
  "(\<forall>err. r_get_instance (region e) (calls s) (ID (self s)) [(''$expand'', ''instanceView'')] = Inl err \<longrightarrow>
      fst (getNics e s) = Inl err \<and> fst (GetINics e s) = Inl err \<and> fst (Refresh e s) = Some err)
   \<and> (\<forall>err. r_list_instances (region e) (calls s) ''Microsoft.ClassicCompute/virtualMachines'' [] = Inl err \<longrightarrow>
         fst (GetClassicInstances e s) = Inl err)
   \<and> (\<forall>err. r_get_disks (region e) (calls s) (ID (self s) @ ''/disks'') [] = Inl err \<longrightarrow>
         fst (GetIDisks e s) = Inl (Wrapf (Wrapf err ''list'') ''GetClassicInstanceDisks''))
   \<and> (\<forall>err. r_StartVM (region e) (calls s) (ID (self s)) = Some err \<longrightarrow>
         fst (StartVM e s) = Return (Some err))
   \<and> (\<forall>err opt. r_perform (region e) (calls s) (ID (self s)) ''shutdown'' = Some err \<longrightarrow>
         fst (StopVM e (Some opt) s) = Return (Some err))
   \<and> (\<forall>err status s1 diskId.
         GetStatus e s = (Return status, s1)
         \<and> r_AttachDisk (region e) (calls s1) (ID (self s1)) diskId = Some err \<longrightarrow>
         fst (AttachDisk e diskId s) = Return (Some err))
   \<and> (\<forall>err status s1 diskId.
         GetStatus e s = (Return status, s1)
         \<and> r_DetachDisk (region e) (calls s1) (ID (self s1)) diskId = Some err \<longrightarrow>
         fst (DetachDisk e diskId s) = Return (Some err))
   \<and> (\<forall>err. r_DeleteVM (region e) (calls s) (ID (self s)) = Some err \<longrightarrow>
         fst (DeleteVM e s) = Some err)
   \<and> (\<forall>err secgroupId.
         np_NetworkSecurityGroup (p_NetworkProfile (Properties (self s))) = None
         \<and> r_GetClassicSecurityGroupDetails (region e) (calls s) secgroupId = Inl err \<longrightarrow>
         fst (AssignSecurityGroup e secgroupId s) = Some err)
   \<and> (\<forall>err nsg secgroupId.
         np_NetworkSecurityGroup (p_NetworkProfile (Properties (self s))) = Some nsg
         \<and> sr_ID nsg \<noteq> secgroupId
         \<and> r_GetClassicSecurityGroupDetails (region e)
             (calls s @ [Call_del (ID (self s) @ ''/associatedNetworkSecurityGroups/'' @ sr_Name nsg)])
             secgroupId = Inl err \<longrightarrow>
         fst (AssignSecurityGroup e secgroupId s) = Some err)
   \<and> (\<forall>err secgroup secgroupId.
         np_NetworkSecurityGroup (p_NetworkProfile (Properties (self s))) = None
         \<and> r_GetClassicSecurityGroupDetails (region e) (calls s) secgroupId = Inr secgroup
         \<and> r_update (region e) (calls s @ [Call_GetClassicSecurityGroupDetails secgroupId])
             \<lparr>asg_ID = ID (self s) @ ''/associatedNetworkSecurityGroups/'' @ sg_Name secgroup,
              asg_Name = sg_Name secgroup,
              asg_Properties =
                \<lparr>ap_NetworkSecurityGroup =
                   \<lparr>sr_ID = sg_ID secgroup, sr_Name = sg_Name secgroup, sr_Type = ''''\<rparr>\<rparr>,
              asg_Type = ''''\<rparr> = Some err \<longrightarrow>
         fst (AssignSecurityGroup e secgroupId s) = Some err)
   \<and> (r_DeleteVM (region e) (calls s) (ID (self s)) = None \<longrightarrow> fst (DeleteVM e s) = None)
   \<and> (\<forall>err. p_InstanceView (Properties (self s)) = None \<and> fst (Refresh e s) = Some err \<longrightarrow>
         fst (GetStatus e s) = Return VM_UNKNOWN)
   \<and> (\<exists>r. fst (GetIEIP e s) = Inr r)
   \<and> (\<forall>err nsg secgroup secgroupId.
         np_NetworkSecurityGroup (p_NetworkProfile (Properties (self s))) = Some nsg
         \<and> sr_ID nsg \<noteq> secgroupId
         \<and> r_GetClassicSecurityGroupDetails (region e) (calls s @ [Call_del (ID (self s) @ ''/associatedNetworkSecurityGroups/'' @ sr_Name nsg)])
             secgroupId = Inr secgroup
         \<and> r_update (region e)
             (calls s @ [Call_del (ID (self s) @ ''/associatedNetworkSecurityGroups/'' @ sr_Name nsg),
                         Call_GetClassicSecurityGroupDetails secgroupId])
             \<lparr>asg_ID = ID (self s) @ ''/associatedNetworkSecurityGroups/'' @ sg_Name secgroup,
              asg_Name = sg_Name secgroup,
              asg_Properties =
                \<lparr>ap_NetworkSecurityGroup =
                   \<lparr>sr_ID = sg_ID secgroup, sr_Name = sg_Name secgroup, sr_Type = ''''\<rparr>\<rparr>,
              asg_Type = ''''\<rparr> = Some err \<longrightarrow>
         fst (AssignSecurityGroup e secgroupId s) = Some err)
   \<and> (\<forall>nsg secgroup secgroupId.
         np_NetworkSecurityGroup (p_NetworkProfile (Properties (self s))) = Some nsg
         \<and> sr_ID nsg \<noteq> secgroupId
         \<and> r_GetClassicSecurityGroupDetails (region e) (calls s @ [Call_del (ID (self s) @ ''/associatedNetworkSecurityGroups/'' @ sr_Name nsg)])
             secgroupId = Inr secgroup
         \<and> r_update (region e)
             (calls s @ [Call_del (ID (self s) @ ''/associatedNetworkSecurityGroups/'' @ sr_Name nsg),
                         Call_GetClassicSecurityGroupDetails secgroupId])
             \<lparr>asg_ID = ID (self s) @ ''/associatedNetworkSecurityGroups/'' @ sg_Name secgroup,
              asg_Name = sg_Name secgroup,
              asg_Properties =
                \<lparr>ap_NetworkSecurityGroup =
                   \<lparr>sr_ID = sg_ID secgroup, sr_Name = sg_Name secgroup, sr_Type = ''''\<rparr>\<rparr>,
              asg_Type = ''''\<rparr> = None \<longrightarrow>
         AssignSecurityGroup e secgroupId s =
           (None,
            s\<lparr>calls := calls s @
                 [Call_del (ID (self s) @ ''/associatedNetworkSecurityGroups/'' @ sr_Name nsg),
                  Call_GetClassicSecurityGroupDetails secgroupId,
                  Call_update
                    \<lparr>asg_ID = ID (self s) @ ''/associatedNetworkSecurityGroups/'' @ sg_Name secgroup,
                     asg_Name = sg_Name secgroup,
                     asg_Properties =
                       \<lparr>ap_NetworkSecurityGroup =
                          \<lparr>sr_ID = sg_ID secgroup, sr_Name = sg_Name secgroup, sr_Type = ''''\<rparr>\<rparr>,
                     asg_Type = ''''\<rparr>]\<rparr>))
   \<and> (\<forall>secgroupId.
         fst (AssignSecurityGroup e secgroupId s) =
           (case np_NetworkSecurityGroup (p_NetworkProfile (Properties (self s))) of
              None \<Rightarrow>
                (case r_GetClassicSecurityGroupDetails (region e) (calls s) secgroupId of
                   Inl err \<Rightarrow> Some err
                 | Inr secgroup \<Rightarrow>
                     r_update (region e) (calls s @ [Call_GetClassicSecurityGroupDetails secgroupId])
                       \<lparr>asg_ID = ID (self s) @ ''/associatedNetworkSecurityGroups/'' @ sg_Name secgroup,
                        asg_Name = sg_Name secgroup,
                        asg_Properties =
                          \<lparr>ap_NetworkSecurityGroup =
                             \<lparr>sr_ID = sg_ID secgroup, sr_Name = sg_Name secgroup, sr_Type = ''''\<rparr>\<rparr>,
                        asg_Type = ''''\<rparr>)
            | Some nsg \<Rightarrow>
                if sr_ID nsg = secgroupId then None
                else
                  (case r_GetClassicSecurityGroupDetails (region e)
                          (calls s @ [Call_del (ID (self s) @ ''/associatedNetworkSecurityGroups/'' @ sr_Name nsg)]) secgroupId of
                     Inl err \<Rightarrow> Some err
                   | Inr secgroup \<Rightarrow>
                       r_update (region e)
                         (calls s @ [Call_del (ID (self s) @ ''/associatedNetworkSecurityGroups/'' @ sr_Name nsg),
                                     Call_GetClassicSecurityGroupDetails secgroupId])
                         \<lparr>asg_ID = ID (self s) @ ''/associatedNetworkSecurityGroups/'' @ sg_Name secgroup,
                          asg_Name = sg_Name secgroup,
                          asg_Properties =
                            \<lparr>ap_NetworkSecurityGroup =
                               \<lparr>sr_ID = sg_ID secgroup, sr_Name = sg_Name secgroup, sr_Type = ''''\<rparr>\<rparr>,
                          asg_Type = ''''\<rparr>)))
   \<and> (r_DeleteVM (region e) (calls s) (ID (self s)) = None \<longrightarrow>
         calls (snd (DeleteVM e s)) =
           calls s @ [Call_DeleteVM (ID (self s))]
           @ (case np_NetworkSecurityGroup (p_NetworkProfile (Properties (self s))) of
                Some nsg \<Rightarrow> [Call_del (sr_ID nsg)]
              | None \<Rightarrow> [])
           @ (case p_DomainName (Properties (self s)) of
                Some dn \<Rightarrow> [Call_del (sr_ID dn)]
              | None \<Rightarrow> []))"
  apply (intro conjI allI impI)
  subgoal by (simp add: getNics_def GetClassicInstance_eq)
  subgoal by (simp add: GetINics_def getNics_def GetClassicInstance_eq)
  subgoal by (simp add: Refresh_def GetClassicInstance_eq)
  subgoal by (simp add: GetClassicInstances_def remote_def)
  subgoal by (simp add: GetIDisks_def GetClassicInstanceDisks_def remote_def Let_def)
  subgoal by (simp add: StartVM_def remote_def)
  subgoal by (simp add: StopVM_def StopClassicVM_def remote_def)
  subgoal by (simp add: AttachDisk_def remote_def)
  subgoal by (simp add: DetachDisk_def remote_def)
  subgoal by (simp add: DeleteVM_def remote_def)
  subgoal by (simp add: AssignSecurityGroup_def remote_def)
  subgoal by (simp add: AssignSecurityGroup_def remote_def Let_def)
  subgoal by (simp add: AssignSecurityGroup_def remote_def Let_def)
  subgoal by (simp add: DeleteVM_def remote_def Let_def)
  subgoal by (cases "Refresh e s") (simp add: GetStatus_def)
  subgoal by (simp add: GetIEIP_scan)
  subgoal by (simp add: AssignSecurityGroup_def remote_def Let_def)
  subgoal by (simp add: AssignSecurityGroup_def remote_def Let_def)
  subgoal by (simp add: AssignSecurityGroup_def remote_def Let_def split: option.splits sum.splits)
  subgoal by (simp add: DeleteVM_def remote_def Let_def split: option.splits)
  done

lemma failing_region_answers:
  "r_get_instance failing_region h i p = Inl (RemoteFailure ''get'')"
  "r_get_disks failing_region h i p = Inl (RemoteFailure ''get'')"
  "r_list_instances failing_region h i p = Inl (RemoteFailure ''list'')"
  "r_StartVM failing_region h i = Some (RemoteFailure ''start'')"
  "r_perform failing_region h i a = Some (RemoteFailure ''perform'')"
  "r_AttachDisk failing_region h i d = Some (RemoteFailure ''attach'')"
  "r_DetachDisk failing_region h i d = Some (RemoteFailure ''detach'')"
  "r_DeleteVM failing_region h i = Some (RemoteFailure ''delete'')"
  "r_GetClassicSecurityGroupDetails failing_region h i = Inl (RemoteFailure ''secgroup'')"
  by (simp_all add: failing_region_def)

lemma other_region_answers:
  "r_DeleteVM del_failing_region h i = None"
  "r_del del_failing_region h i = Some (RemoteFailure ''del'')"
  "r_update del_failing_region h d = None"
  "r_GetClassicSecurityGroupDetails del_failing_region h i = Inr \<lparr>sg_ID = i, sg_Name = ''g2''\<rparr>"
  "r_GetClassicSecurityGroupDetails update_failing_region h i = Inr \<lparr>sg_ID = i, sg_Name = ''g2''\<rparr>"
  "r_update update_failing_region h d = Some (RemoteFailure ''update'')"
  by (simp_all add: del_failing_region_def update_failing_region_def example_region_def)

lemma sample_no_nsg:
  "np_NetworkSecurityGroup (p_NetworkProfile (Properties (self (example_state (with_nsg g i))))) = g"
  by (simp add: example_state_def with_nsg_def)

theorem remote_errors_returned_witness:
  "fst (getNics (example_env failing_region) (example_state example_instance))
     = Inl (RemoteFailure ''get'')
   \<and> fst (GetClassicInstances (example_env failing_region) (example_state example_instance))
     = Inl (RemoteFailure ''list'')
   \<and> fst (GetIDisks (example_env failing_region) (example_state example_instance))
     = Inl (Wrapf (Wrapf (RemoteFailure ''get'') ''list'') ''GetClassicInstanceDisks'')
   \<and> fst (StartVM (example_env failing_region) (example_state example_instance))
     = Return (Some (RemoteFailure ''start''))
   \<and> fst (StopVM (example_env failing_region) (Some \<lparr>IsForce = False\<rparr>)
            (example_state example_instance))
     = Return (Some (RemoteFailure ''perform''))
   \<and> fst (AttachDisk (example_env failing_region) ''/disks/data1''
            (example_state (with_view (Some (example_view ''Stopped'')) example_instance)))
     = Return (Some (RemoteFailure ''attach''))
   \<and> fst (DetachDisk (example_env failing_region) ''/disks/data1''
            (example_state (with_view (Some (example_view ''Stopped'')) example_instance)))
     = Return (Some (RemoteFailure ''detach''))
   \<and> fst (DeleteVM (example_env failing_region) (example_state example_instance))
     = Some (RemoteFailure ''delete'')
   \<and> fst (AssignSecurityGroup (example_env failing_region) ''/nsgs/g2''
            (example_state (with_nsg None example_instance)))
     = Some (RemoteFailure ''secgroup'')
   \<and> fst (AssignSecurityGroup (example_env failing_region) ''/nsgs/g2''
            (example_state example_instance))
     = Some (RemoteFailure ''secgroup'')
   \<and> fst (AssignSecurityGroup (example_env update_failing_region) ''/nsgs/g2''
            (example_state (with_nsg None example_instance)))
     = Some (RemoteFailure ''update'')
   \<and> fst (DeleteVM (example_env del_failing_region) (example_state example_instance)) = None
   \<and> fst (GetStatus (example_env failing_region) (example_state example_instance))
     = Return VM_UNKNOWN
   \<and> fst (AssignSecurityGroup (example_env update_failing_region) ''/nsgs/g2''
            (example_state example_instance))
     = Some (RemoteFailure ''update'')
   \<and> r_del (region (example_env del_failing_region)) []
       ''/vms/vm1/associatedNetworkSecurityGroups/g1'' = Some (RemoteFailure ''del'')
   \<and> AssignSecurityGroup (example_env del_failing_region) ''/nsgs/g2''
       (example_state example_instance)
     = (None,
        (example_state example_instance)
          \<lparr>calls :=
             [Call_del ''/vms/vm1/associatedNetworkSecurityGroups/g1'',
              Call_GetClassicSecurityGroupDetails ''/nsgs/g2'',
              Call_update
                \<lparr>asg_ID = ''/vms/vm1/associatedNetworkSecurityGroups/g2'', asg_Name = ''g2'',
                  asg_Properties =
                    \<lparr>ap_NetworkSecurityGroup =
                       \<lparr>sr_ID = ''/nsgs/g2'', sr_Name = ''g2'', sr_Type = ''''\<rparr>\<rparr>,
                  asg_Type = ''''\<rparr>]\<rparr>)
   \<and> calls (snd (DeleteVM (example_env del_failing_region) (example_state example_instance)))
     = [Call_DeleteVM ''/vms/vm1'', Call_del ''/nsgs/g1'', Call_del ''/domains/d1'']"
proof -
  let ?e = "example_env failing_region"
  let ?s = "example_state example_instance"
  let ?sv = "example_state (with_view (Some (example_view ''Stopped'')) example_instance)"
  let ?sn = "example_state (with_nsg None example_instance)"
  note T = remote_errors_returned [of ?e ?s]
  note samples = sample_region failing_region_answers other_region_answers
  have c1: "fst (getNics ?e ?s) = Inl (RemoteFailure ''get'')"
    using T by (simp add: samples)
  have c2: "fst (GetClassicInstances ?e ?s) = Inl (RemoteFailure ''list'')"
    using T by (simp add: samples)
  have c3: "fst (GetIDisks ?e ?s)
              = Inl (Wrapf (Wrapf (RemoteFailure ''get'') ''list'') ''GetClassicInstanceDisks'')"
    using T by (simp add: samples)
  have c4: "fst (StartVM ?e ?s) = Return (Some (RemoteFailure ''start''))"
    using T by (simp add: samples)
  have c5: "fst (StopVM ?e (Some \<lparr>IsForce = False\<rparr>) ?s) = Return (Some (RemoteFailure ''perform''))"
    using T by (simp add: samples)
  have c6: "fst (AttachDisk ?e ''/disks/data1'' ?sv) = Return (Some (RemoteFailure ''attach''))"
    using remote_errors_returned [of ?e ?sv] sample_status_stopped [of failing_region]
    by (simp add: samples)
  have c7: "fst (DetachDisk ?e ''/disks/data1'' ?sv) = Return (Some (RemoteFailure ''detach''))"
    using remote_errors_returned [of ?e ?sv] sample_status_stopped [of failing_region]
    by (simp add: samples)
  have c8: "fst (DeleteVM ?e ?s) = Some (RemoteFailure ''delete'')"
    using T by (simp add: samples)
  have c9: "fst (AssignSecurityGroup ?e ''/nsgs/g2'' ?sn) = Some (RemoteFailure ''secgroup'')"
    using remote_errors_returned [of ?e ?sn] by (simp add: samples sample_no_nsg)
  have c10: "fst (AssignSecurityGroup ?e ''/nsgs/g2'' ?s) = Some (RemoteFailure ''secgroup'')"
    using T by (simp add: samples sample_nsg)
  have c11: "fst (AssignSecurityGroup (example_env update_failing_region) ''/nsgs/g2'' ?sn)
               = Some (RemoteFailure ''update'')"
    using remote_errors_returned [of "example_env update_failing_region" ?sn]
    by (simp add: samples sample_no_nsg)
  have c12: "fst (DeleteVM (example_env del_failing_region) ?s) = None"
    using remote_errors_returned [of "example_env del_failing_region" ?s]
    by (simp add: samples)
  have c13: "fst (GetStatus ?e ?s) = Return VM_UNKNOWN"
    using T sample_noview sample_refresh_fails by (simp add: samples)
  note samples' = samples sample_nsg sample_id sample_vm_id sample_calls sample_self
    sample_domain sample_vm_nsg
  have c14: "fst (AssignSecurityGroup (example_env update_failing_region) ''/nsgs/g2'' ?s)
               = Some (RemoteFailure ''update'')"
    using remote_errors_returned [of "example_env update_failing_region" ?s]
    by (simp add: samples')
  have c15: "r_del (region (example_env del_failing_region)) []
       ''/vms/vm1/associatedNetworkSecurityGroups/g1'' = Some (RemoteFailure ''del'')"
    by (simp add: samples)
  have c16: "AssignSecurityGroup (example_env del_failing_region) ''/nsgs/g2''
       (example_state example_instance)
     = (None,
        (example_state example_instance)
          \<lparr>calls :=
             [Call_del ''/vms/vm1/associatedNetworkSecurityGroups/g1'',
              Call_GetClassicSecurityGroupDetails ''/nsgs/g2'',
              Call_update
                \<lparr>asg_ID = ''/vms/vm1/associatedNetworkSecurityGroups/g2'', asg_Name = ''g2'',
                  asg_Properties =
                    \<lparr>ap_NetworkSecurityGroup =
                       \<lparr>sr_ID = ''/nsgs/g2'', sr_Name = ''g2'', sr_Type = ''''\<rparr>\<rparr>,
                  asg_Type = ''''\<rparr>]\<rparr>)"
    using remote_errors_returned [of "example_env del_failing_region" ?s]
    by (simp add: samples')
  have c17: "calls (snd (DeleteVM (example_env del_failing_region) ?s))
     = [Call_DeleteVM ''/vms/vm1'', Call_del ''/nsgs/g1'', Call_del ''/domains/d1'']"
    using remote_errors_returned [of "example_env del_failing_region" ?s]
    by (simp add: samples')
  from c1 c2 c3 c4 c5 c6 c7 c8 c9 c10 c11 c12 c13 c14 c15 c16 c17 show ?thesis
    by (intro conjI)
qed

end
